theory Spec2Isabelle
  imports Complex_Main "HOL-Library.AList"
begin

section \<open>Response cache (src/lib/api.ts, class ApiCache)\<close>

text \<open>
  The cache is a JavaScript \<open>Map\<close> from keys to items \<open>{data, timestamp}\<close>. A \<open>Map\<close>
  keeps one entry per key, in insertion order, and \<open>Map.set\<close> on a present key replaces
  the value in place: an association list with distinct keys, written with
  \<open>AList.update\<close>, deleted from with \<open>AList.delete\<close>, read with \<open>map_of\<close>.
  \<open>Date.now()\<close> is an integral number of milliseconds; every operation that reads the
  clock takes the reading as its first argument.

  The stored data is typed \<open>any\<close>, so it may be \<open>null\<close>: a value is \<open>None\<close> for \<open>null\<close> and
  \<open>Some d\<close> for any other value \<open>d\<close>. \<open>get\<close> answers \<open>T | null\<close> in the same way: it returns
  \<open>item.data\<close> as it is stored, and \<open>null\<close> for a miss, so a stored \<open>null\<close> and a miss
  give the same answer.
\<close>

record 'v cache_item =
  data :: "'v option"
  timestamp :: int

type_synonym 'v api_cache = "(string \<times> 'v cache_item) list"

definition ttl :: int where
  "ttl = 5 * 60 * 1000"

definition ApiCache_new :: "'v api_cache" where
  "ApiCache_new = []"

definition ApiCache_set :: "int \<Rightarrow> string \<Rightarrow> 'v option \<Rightarrow> 'v api_cache \<Rightarrow> 'v api_cache" where
  "ApiCache_set now key d c = AList.update key \<lparr>cache_item.data = d, timestamp = now\<rparr> c"

definition ApiCache_get :: "int \<Rightarrow> string \<Rightarrow> 'v api_cache \<Rightarrow> 'v option \<times> 'v api_cache" where
  "ApiCache_get now key c =
     (case map_of c key of
        None \<Rightarrow> (None, c)
      | Some item \<Rightarrow>
          if now - timestamp item > ttl then (None, AList.delete key c)
          else (cache_item.data item, c))"

definition ApiCache_clear :: "'v api_cache \<Rightarrow> 'v api_cache" where
  "ApiCache_clear c = []"

definition ApiCache_size :: "'v api_cache \<Rightarrow> nat" where
  "ApiCache_size c = length c"

definition cache_inv :: "'v api_cache \<Rightarrow> bool" where
  "cache_inv c = distinct (map fst c)"


section \<open>Messages and configuration (lib/constants.ts)\<close>

definition LOCATION_DENIED :: string where
  "LOCATION_DENIED = ''Location access denied. Please enable location services.''"

definition LOCATION_UNAVAILABLE :: string where
  "LOCATION_UNAVAILABLE = ''Location services are not available on this device.''"

definition STATION_NOT_FOUND :: string where
  "STATION_NOT_FOUND = ''Station not found. Please try a different search.''"

definition API_RATE_LIMITED :: string where
  "API_RATE_LIMITED = ''Too many requests. Please wait a moment and try again.''"

definition MAPS_LOAD_FAILED :: string where
  "MAPS_LOAD_FAILED = ''Failed to load maps. Please refresh the page.''"

definition GENERIC_ERROR :: string where
  "GENERIC_ERROR = ''An unexpected error occurred. Please try again.''"

text \<open>
  \<open>OPEN_CHARGE_MAP_CONFIG\<close>: the default radius and the result cap are read from the
  environment (with the fallbacks 25 and 100), so they are the arguments of the
  configuration; the other entries are literals.
\<close>

record config =
  baseUrl :: string
  defaultRadius :: real
  maxStationsPerRequest :: real
  countryCode :: string
  includeComments :: bool
  verbose :: bool

definition OPEN_CHARGE_MAP_CONFIG :: "real \<Rightarrow> real \<Rightarrow> config" where
  "OPEN_CHARGE_MAP_CONFIG env_radius env_max =
     \<lparr>baseUrl = ''https://api.openchargemap.io/v3'',
      defaultRadius = env_radius,
      maxStationsPerRequest = env_max,
      countryCode = ''US'',
      includeComments = True,
      verbose = False\<rparr>"


section \<open>Station-directory client (src/lib/api.ts, class ApiClient)\<close>

subsection \<open>JavaScript values and the platform\<close>

text \<open>
  A request parameter (\<open>Record<string, any>\<close>) holds what the client puts there: nothing
  (\<open>undefined\<close>, \<open>null\<close>), a string, a number, a boolean, or an array of those. The
  numbers of the filters are the finite values of a JavaScript number, as reals.
\<close>

datatype prim = Str string | Num real | Bool bool

datatype param_value = Undefined | Null | Prim prim | Array "prim list"

text \<open>
  A JavaScript number in full: \<open>NaN\<close>, the two infinities, or a finite value.
\<close>

datatype number = NaN | PosInf | NegInf | Fin real

text \<open>
  What \<open>response.json()\<close> decodes: any JSON value, not only the array that the declared
  type promises. An object lists its members in the order of the text; a later member
  with the same key replaces an earlier one, so a property is read from the end. A string
  is its sequence of code units.
\<close>

datatype json =
    JNull
  | JBool bool
  | JNum number
  | JStr string
  | JArr "json list"
  | JObj "(string \<times> json) list"

definition property :: "(string \<times> json) list \<Rightarrow> string \<Rightarrow> json option" where
  "property members k = map_of (rev members) k"

text \<open>
  A thrown value is an \<open>Error\<close> with its message, or a value that is no \<open>Error\<close>.
\<close>

datatype thrown = Error string | NonError

text \<open>
  What the platform throws: \<open>fetch\<close> rejects with a \<open>TypeError\<close>, \<open>response.json()\<close> with a
  \<open>SyntaxError\<close>, a property read of \<open>null\<close> throws a \<open>TypeError\<close>. Such an \<open>Error\<close> carries
  the engine's description of what went wrong: its message is a non-empty string.
\<close>

typedef error_message = "{s :: string. s \<noteq> []}"
  morphisms message_text Abs_error_message
  by (rule exI [of _ "''Error''"]) simp

setup_lifting type_definition_error_message

datatype platform_thrown = PlatformError error_message | PlatformOther

definition as_thrown :: "platform_thrown \<Rightarrow> thrown" where
  "as_thrown e = (case e of PlatformError m \<Rightarrow> Error (message_text m) | PlatformOther \<Rightarrow> NonError)"

text \<open>
  The URL object: the address it was built from and the query pairs appended to its
  \<open>searchParams\<close>, in order. \<open>new URL\<close> accepts the configured base address followed by
  an endpoint path, so building it never throws.
\<close>

record url =
  href :: string
  searchParams :: "(string \<times> string) list"

text \<open>
  A response of \<open>fetch\<close>: its status line and what \<open>response.json()\<close> settles to, the
  decoded value or a rejection. The Fetch standard defines \<open>response.ok\<close> as a status
  from 200 to 299.
\<close>

record response =
  status :: nat
  statusText :: string
  json :: "platform_thrown + json"

definition ok :: "response \<Rightarrow> bool" where
  "ok r = (200 \<le> status r \<and> status r \<le> 299)"

datatype fetch_result = Rejected platform_thrown | Fulfilled response

text \<open>
  The platform: what \<open>fetch\<close> settles to for a URL; \<open>Number.prototype.toString\<close>; the
  message of the \<open>TypeError\<close> for reading a property of \<open>null\<close>; and, for a string, array
  or object \<open>v\<close>, what the comparison \<open>v > 0\<close> gives after the engine's conversion of \<open>v\<close>
  to a number, or what that conversion throws.
\<close>

record platform =
  fetch :: "url \<Rightarrow> fetch_result"
  numToString :: "real \<Rightarrow> string"
  nullReadMessage :: error_message
  convertedGreaterZero :: "json \<Rightarrow> platform_thrown + bool"

definition digit_char :: "nat \<Rightarrow> char" where
  "digit_char d = ''0123456789'' ! d"

text \<open>The decimal digits of a natural number (an HTTP status, the digits of \<open>toFixed\<close>).\<close>

fun decimal :: "nat \<Rightarrow> string" where
  "decimal n = (if n < 10 then [digit_char n] else decimal (n div 10) @ [digit_char (n mod 10)])"

declare decimal.simps [simp del]

definition toString :: "(real \<Rightarrow> string) \<Rightarrow> prim \<Rightarrow> string" where
  "toString nts v =
     (case v of Str s \<Rightarrow> s | Num x \<Rightarrow> nts x | Bool b \<Rightarrow> (if b then ''true'' else ''false''))"

text \<open>
  \<open>v > 0\<close> for a decoded value \<open>v\<close>: \<open>null\<close> converts to 0, a boolean to 0 or 1, a number
  is compared as it is (\<open>NaN > 0\<close> is false); the other conversions are the platform's.
\<close>

definition greaterZero :: "platform \<Rightarrow> json \<Rightarrow> thrown + bool" where
  "greaterZero pf v =
     (case v of
        JNull \<Rightarrow> Inr False
      | JBool b \<Rightarrow> Inr b
      | JNum n \<Rightarrow> Inr (case n of NaN \<Rightarrow> False | PosInf \<Rightarrow> True | NegInf \<Rightarrow> False | Fin x \<Rightarrow> x > 0)
      | _ \<Rightarrow> (case convertedGreaterZero pf v of Inl e \<Rightarrow> Inl (as_thrown e) | Inr b \<Rightarrow> Inr b))"

subsection \<open>The response envelope (types/station.ts, ApiResponse)\<close>

record meta =
  total :: nat
  page :: nat
  limit :: real

record 'd ApiResponse =
  data :: 'd
  success :: bool
  message :: "string option"
  error :: "string option"
  meta :: "meta option"

subsection \<open>makeRequest\<close>

record ApiClient =
  baseUrl :: string
  apiKey :: "string option"

definition ApiClient_new :: "config \<Rightarrow> string option \<Rightarrow> ApiClient" where
  "ApiClient_new cfg env_key = \<lparr>baseUrl = config.baseUrl cfg, apiKey = env_key\<rparr>"

type_synonym params = "(string \<times> param_value) list"

text \<open>One turn of the \<open>Object.entries(params).forEach\<close> loop.\<close>

definition append_param :: "(real \<Rightarrow> string) \<Rightarrow> (string \<times> string) list \<Rightarrow> string \<times> param_value
    \<Rightarrow> (string \<times> string) list" where
  "append_param nts sp kv =
     (case snd kv of
        Undefined \<Rightarrow> sp
      | Null \<Rightarrow> sp
      | Prim v \<Rightarrow> if v = Str '''' then sp else sp @ [(fst kv, toString nts v)]
      | Array vs \<Rightarrow> sp @ map (\<lambda>v. (fst kv, toString nts v)) vs)"

definition request_url :: "(real \<Rightarrow> string) \<Rightarrow> ApiClient \<Rightarrow> string \<Rightarrow> params option \<Rightarrow> url" where
  "request_url nts cl endpoint ps =
     (let with_key = (case apiKey cl of
                        None \<Rightarrow> []
                      | Some k \<Rightarrow> if k \<noteq> '''' then [(''key'', k)] else [])
      in \<lparr>href = ApiClient.baseUrl cl @ endpoint,
          searchParams = (case ps of
                            None \<Rightarrow> with_key
                          | Some kvs \<Rightarrow> foldl (append_param nts) with_key kvs)\<rparr>)"

text \<open>
  The body of the \<open>try\<close> block: a thrown value or the success envelope. The item count is
  \<open>Array.isArray(data) ? data.length : 1\<close>.
\<close>

definition makeRequest_try :: "platform \<Rightarrow> config \<Rightarrow> ApiClient \<Rightarrow> string \<Rightarrow> params option
    \<Rightarrow> thrown + json ApiResponse" where
  "makeRequest_try pf cfg cl endpoint ps =
     (case fetch pf (request_url (numToString pf) cl endpoint ps) of
        Rejected e \<Rightarrow> Inl (as_thrown e)
      | Fulfilled r \<Rightarrow>
          if \<not> ok r then
            (if status r = 429 then Inl (Error API_RATE_LIMITED)
             else Inl (Error (''API Error: '' @ decimal (status r) @ '' '' @ statusText r)))
          else
            (case json r of
               Inl e \<Rightarrow> Inl (as_thrown e)
             | Inr d \<Rightarrow>
                 Inr \<lparr>data = d, success = True, message = None, error = None,
                      meta = Some \<lparr>total = (case d of JArr xs \<Rightarrow> length xs | _ \<Rightarrow> 1),
                                   page = 1,
                                   limit = maxStationsPerRequest cfg\<rparr>\<rparr>))"

text \<open>The \<open>catch\<close> block.\<close>

definition makeRequest_catch :: "thrown \<Rightarrow> json ApiResponse" where
  "makeRequest_catch e =
     \<lparr>data = JArr [], success = False, message = None,
      error = Some (case e of Error m \<Rightarrow> m | NonError \<Rightarrow> GENERIC_ERROR),
      meta = None\<rparr>"

text \<open>
  The whole body of \<open>makeRequest\<close> is the \<open>try\<close> block with its \<open>catch\<close>: whatever the block
  throws becomes an envelope, and the call returns an envelope in every case.
\<close>

definition makeRequest :: "platform \<Rightarrow> config \<Rightarrow> ApiClient \<Rightarrow> string \<Rightarrow> params option
    \<Rightarrow> json ApiResponse" where
  "makeRequest pf cfg cl endpoint ps =
     (case makeRequest_try pf cfg cl endpoint ps of
        Inl e \<Rightarrow> makeRequest_catch e
      | Inr r \<Rightarrow> r)"

subsection \<open>searchStations\<close>

text \<open>
  \<open>SearchFilters\<close> (types/station.ts): every field is optional, \<open>None\<close> is \<open>undefined\<close>.
  The bounds of \<open>powerKW\<close> are the fields \<open>min\<close> and \<open>max\<close> of the source.
\<close>

record location =
  latitude :: real
  longitude :: real

record powerKW =
  powerKW_min :: "real option"
  powerKW_max :: "real option"

record SearchFilters =
  location :: "location option"
  radius :: "real option"
  connectionTypes :: "real list option"
  levelIds :: "real list option"
  statusTypes :: "real list option"
  operatorIds :: "real list option"
  countryCode :: "string option"
  maxResults :: "real option"
  openData :: "bool option"
  includeComments :: "bool option"
  powerKW :: "powerKW option"
  usageTypeId :: "real option"

definition no_filters :: SearchFilters where
  "no_filters =
     \<lparr>location = None, radius = None, connectionTypes = None, levelIds = None,
      statusTypes = None, operatorIds = None, countryCode = None, maxResults = None,
      openData = None, includeComments = None, powerKW = None, usageTypeId = None\<rparr>"

text \<open>
  The conditions of \<open>searchStations\<close> test JavaScript truthiness: an absent field, the
  number 0 and the empty string are falsy. \<open>a || b\<close> is \<open>a\<close> when \<open>a\<close> is truthy and \<open>b\<close>
  otherwise.
\<close>

definition or_str :: "string option \<Rightarrow> string \<Rightarrow> string" where
  "or_str a b = (case a of None \<Rightarrow> b | Some s \<Rightarrow> if s \<noteq> [] then s else b)"

definition or_num :: "real option \<Rightarrow> real \<Rightarrow> real" where
  "or_num a b = (case a of None \<Rightarrow> b | Some x \<Rightarrow> if x \<noteq> 0 then x else b)"

definition or_bool :: "bool option \<Rightarrow> bool \<Rightarrow> bool" where
  "or_bool a b = (case a of None \<Rightarrow> b | Some x \<Rightarrow> if x then x else b)"

text \<open>\<open>if (filters.f) params.k = filters.f\<close> for an optional number.\<close>

definition num_param :: "string \<Rightarrow> real option \<Rightarrow> params" where
  "num_param k a = (case a of None \<Rightarrow> [] | Some x \<Rightarrow> if x \<noteq> 0 then [(k, Prim (Num x))] else [])"

text \<open>\<open>if (filters.f && filters.f.length > 0) params.k = filters.f\<close> for an optional array.\<close>

definition ids_param :: "string \<Rightarrow> real list option \<Rightarrow> params" where
  "ids_param k a =
     (case a of None \<Rightarrow> [] | Some ids \<Rightarrow> if length ids > 0 then [(k, Array (map Num ids))] else [])"

definition searchStations_params :: "config \<Rightarrow> SearchFilters \<Rightarrow> params" where
  "searchStations_params cfg filters =
     [(''output'', Prim (Str ''json'')),
      (''countrycode'', Prim (Str (or_str (SearchFilters.countryCode filters) (config.countryCode cfg)))),
      (''maxresults'', Prim (Num (or_num (maxResults filters) (maxStationsPerRequest cfg)))),
      (''compact'', Prim (Bool (\<not> verbose cfg))),
      (''verbose'', Prim (Bool (verbose cfg))),
      (''includecomments'',
         Prim (Bool (or_bool (SearchFilters.includeComments filters) (config.includeComments cfg))))]
     @ (case location filters of
          None \<Rightarrow> []
        | Some l \<Rightarrow> [(''latitude'', Prim (Num (latitude l))),
                     (''longitude'', Prim (Num (longitude l)))])
     @ (case radius filters of
          None \<Rightarrow> []
        | Some r \<Rightarrow> if r \<noteq> 0
                    then [(''distance'', Prim (Num r)), (''distanceunit'', Prim (Str ''Miles''))]
                    else [])
     @ ids_param ''connectiontypeid'' (connectionTypes filters)
     @ ids_param ''levelid'' (levelIds filters)
     @ ids_param ''statustypeid'' (statusTypes filters)
     @ ids_param ''operatorid'' (operatorIds filters)
     @ (case powerKW filters of
          None \<Rightarrow> []
        | Some p \<Rightarrow> num_param ''minpowerkw'' (powerKW_min p) @ num_param ''maxpowerkw'' (powerKW_max p))
     @ num_param ''usagetypeid'' (usageTypeId filters)
     @ (case openData filters of
          None \<Rightarrow> []
        | Some b \<Rightarrow> [(''opendata'', Prim (Bool b))])"

definition searchStations :: "platform \<Rightarrow> config \<Rightarrow> ApiClient \<Rightarrow> SearchFilters
    \<Rightarrow> json ApiResponse" where
  "searchStations pf cfg cl filters =
     makeRequest pf cfg cl ''/poi'' (Some (searchStations_params cfg filters))"

text \<open>The URL that \<open>searchStations\<close> hands to \<open>fetch\<close>.\<close>

definition searchStations_url :: "(real \<Rightarrow> string) \<Rightarrow> config \<Rightarrow> ApiClient \<Rightarrow> SearchFilters \<Rightarrow> url" where
  "searchStations_url nts cfg cl filters =
     request_url nts cl ''/poi'' (Some (searchStations_params cfg filters))"

subsection \<open>getStationById and the lookups\<close>

definition getStationById_params :: "real \<Rightarrow> params" where
  "getStationById_params ident =
     [(''chargepointid'', Prim (Num ident)),
      (''includecomments'', Prim (Bool True)),
      (''verbose'', Prim (Bool True))]"

text \<open>
  The two envelopes that \<open>getStationById\<close> returns. The data of the first is
  \<open>response.data[0]\<close>, which is \<open>undefined\<close> (\<open>None\<close>) when there is no such element; the
  data of the second is the empty object \<open>{}\<close>.
\<close>

definition first_of :: "json ApiResponse \<Rightarrow> json option \<Rightarrow> json option ApiResponse" where
  "first_of response d =
     \<lparr>data = d,
      success = success response,
      message = message response,
      error = ApiResponse.error response,
      meta = meta response\<rparr>"

definition not_found :: "json option ApiResponse" where
  "not_found =
     \<lparr>data = Some (JObj []), success = False, message = None,
      error = Some STATION_NOT_FOUND, meta = None\<rparr>"

text \<open>
  The test \<open>response.success && response.data.length > 0\<close> and the read of
  \<open>response.data[0]\<close> stand outside any \<open>try\<close>, and \<open>response.data\<close> is whatever was
  decoded. Reading \<open>length\<close> of \<open>null\<close> throws a \<open>TypeError\<close>, which the caller gets; an
  array and a string have their length and their first element; a boolean and a number
  have no \<open>length\<close>, and \<open>undefined > 0\<close> is false; an object has the \<open>length\<close> and the \<open>0\<close>
  that its members give it. When \<open>response.success\<close> is false the length is not read.
\<close>

definition getStationById :: "platform \<Rightarrow> config \<Rightarrow> ApiClient \<Rightarrow> real
    \<Rightarrow> thrown + json option ApiResponse" where
  "getStationById pf cfg cl ident =
     (let response = makeRequest pf cfg cl ''/poi'' (Some (getStationById_params ident))
      in if \<not> success response then Inr not_found
         else
           (case data response of
              JNull \<Rightarrow> Inl (Error (message_text (nullReadMessage pf)))
            | JBool b \<Rightarrow> Inr not_found
            | JNum n \<Rightarrow> Inr not_found
            | JStr s \<Rightarrow>
                if length s > 0 then Inr (first_of response (Some (JStr [s ! 0])))
                else Inr not_found
            | JArr xs \<Rightarrow>
                if length xs > 0 then Inr (first_of response (Some (xs ! 0)))
                else Inr not_found
            | JObj members \<Rightarrow>
                (case property members ''length'' of
                   None \<Rightarrow> Inr not_found
                 | Some v \<Rightarrow>
                     (case greaterZero pf v of
                        Inl e \<Rightarrow> Inl e
                      | Inr b \<Rightarrow>
                          if b then Inr (first_of response (property members ''0''))
                          else Inr not_found))))"

definition getConnectionTypes :: "platform \<Rightarrow> config \<Rightarrow> ApiClient \<Rightarrow> json ApiResponse" where
  "getConnectionTypes pf cfg cl = makeRequest pf cfg cl ''/connectiontypes'' None"

definition getOperators :: "platform \<Rightarrow> config \<Rightarrow> ApiClient \<Rightarrow> json ApiResponse" where
  "getOperators pf cfg cl = makeRequest pf cfg cl ''/operators'' None"

definition getCountries :: "platform \<Rightarrow> config \<Rightarrow> ApiClient \<Rightarrow> json ApiResponse" where
  "getCountries pf cfg cl = makeRequest pf cfg cl ''/countries'' None"

definition getUsageTypes :: "platform \<Rightarrow> config \<Rightarrow> ApiClient \<Rightarrow> json ApiResponse" where
  "getUsageTypes pf cfg cl = makeRequest pf cfg cl ''/usagetypes'' None"

definition getStatusTypes :: "platform \<Rightarrow> config \<Rightarrow> ApiClient \<Rightarrow> json ApiResponse" where
  "getStatusTypes pf cfg cl = makeRequest pf cfg cl ''/statustypes'' None"

section \<open>Geolocation adapter (hooks, useGeolocation)\<close>

text \<open>
  The state of the hook: the \<open>GeolocationState\<close> and the watch handle. \<open>None\<close> is \<open>null\<close>.
\<close>

record GeolocationState =
  latitude :: "real option"
  longitude :: "real option"
  accuracy :: "real option"
  error :: "string option"
  loading :: bool

record hook =
  state :: GeolocationState
  watchId :: "nat option"

definition initial_hook :: hook where
  "initial_hook =
     \<lparr>state = \<lparr>latitude = None, longitude = None, accuracy = None, error = None,
                loading = False\<rparr>,
      watchId = None\<rparr>"

text \<open>What the platform hands to the callbacks: the coordinates of a fix, or an error code.\<close>

record coords =
  coords_latitude :: real
  coords_longitude :: real
  coords_accuracy :: real

datatype position_error = PERMISSION_DENIED | POSITION_UNAVAILABLE | TIMEOUT | OtherCode

definition onSuccess :: "coords \<Rightarrow> hook \<Rightarrow> hook" where
  "onSuccess position h =
     h\<lparr>state := \<lparr>latitude = Some (coords_latitude position),
                  longitude = Some (coords_longitude position),
                  accuracy = Some (coords_accuracy position),
                  error = None,
                  loading = False\<rparr>\<rparr>"

definition onError :: "position_error \<Rightarrow> hook \<Rightarrow> hook" where
  "onError code h =
     (let errorMessage =
            (case code of
               PERMISSION_DENIED \<Rightarrow> LOCATION_DENIED
             | POSITION_UNAVAILABLE \<Rightarrow> LOCATION_UNAVAILABLE
             | TIMEOUT \<Rightarrow> ''Location request timed out. Please try again.''
             | OtherCode \<Rightarrow> GENERIC_ERROR)
      in h\<lparr>state := (state h)\<lparr>GeolocationState.error := Some errorMessage, loading := False\<rparr>\<rparr>)"

text \<open>
  The first argument of the operations that read \<open>navigator.geolocation\<close> says whether
  the capability is there. With the capability, \<open>getCurrentPosition\<close> and \<open>watchPosition\<close>
  register the two callbacks with the platform, which calls them later; \<open>watchPosition\<close>
  returns the handle \<open>wid\<close>.
\<close>

definition getCurrentPosition :: "bool \<Rightarrow> hook \<Rightarrow> hook" where
  "getCurrentPosition supported h =
     (if \<not> supported
      then h\<lparr>state := (state h)\<lparr>GeolocationState.error := Some LOCATION_UNAVAILABLE,
                                  loading := False\<rparr>\<rparr>
      else h\<lparr>state := (state h)\<lparr>loading := True, GeolocationState.error := None\<rparr>\<rparr>)"

definition startWatching :: "bool \<Rightarrow> nat \<Rightarrow> hook \<Rightarrow> hook" where
  "startWatching supported wid h =
     (if \<not> supported
      then h\<lparr>state := (state h)\<lparr>GeolocationState.error := Some LOCATION_UNAVAILABLE\<rparr>\<rparr>
      else h\<lparr>state := (state h)\<lparr>loading := True, GeolocationState.error := None\<rparr>,
             watchId := Some wid\<rparr>)"

definition stopWatching :: "hook \<Rightarrow> hook" where
  "stopWatching h =
     (if watchId h \<noteq> None
      then h\<lparr>watchId := None, state := (state h)\<lparr>loading := False\<rparr>\<rparr>
      else h)"

definition clearError :: "hook \<Rightarrow> hook" where
  "clearError h = h\<lparr>state := (state h)\<lparr>GeolocationState.error := None\<rparr>\<rparr>"

definition reset :: "hook \<Rightarrow> hook" where
  "reset h =
     \<lparr>state = \<lparr>latitude = None, longitude = None, accuracy = None, error = None,
                loading = False\<rparr>,
      watchId = None\<rparr>"

text \<open>
  Everything that can happen to a mounted hook: a call of one of its operations, or the
  platform calling one of the callbacks.
\<close>

datatype hook_event =
    GetCurrentPosition
  | StartWatching nat
  | StopWatching
  | ClearError
  | Reset
  | OnSuccess coords
  | OnError position_error

fun hook_step :: "bool \<Rightarrow> hook \<Rightarrow> hook_event \<Rightarrow> hook" where
  "hook_step supported h GetCurrentPosition = getCurrentPosition supported h"
| "hook_step supported h (StartWatching wid) = startWatching supported wid h"
| "hook_step supported h StopWatching = stopWatching h"
| "hook_step supported h ClearError = clearError h"
| "hook_step supported h Reset = reset h"
| "hook_step supported h (OnSuccess position) = onSuccess position h"
| "hook_step supported h (OnError code) = onError code h"

definition hook_run :: "bool \<Rightarrow> hook_event list \<Rightarrow> hook" where
  "hook_run supported evs = foldl (hook_step supported) initial_hook evs"

section \<open>Distance utility (hooks, useDistanceCalculation)\<close>

subsection \<open>Arithmetic of JavaScript numbers\<close>

text \<open>
  A JavaScript number is an IEEE 754 binary64 value: \<open>NaN\<close>, an infinity, or a finite
  value \<open>m * 2^e\<close> with \<open>\<bar>m\<bar> < 2^53\<close> and \<open>-1074 \<le> e \<le> 971\<close>, here \<open>Fin\<close> of that real
  (the sign of zero is not kept: no operation below tells the two zeros apart).
  \<open>roundDouble\<close> is the rounding of an exact result to such a value, to the nearest one
  and to the even significand of two nearest ones; a magnitude that rounds to \<open>2^1024\<close>
  overflows to an infinity.
\<close>

definition pow2 :: "int \<Rightarrow> real" where
  "pow2 e = (if 0 \<le> e then 2 ^ nat e else 1 / 2 ^ nat (- e))"

definition roundTiesToEven :: "real \<Rightarrow> int" where
  "roundTiesToEven r =
     (let n = \<lfloor>r\<rfloor>
      in if r - of_int n < 1 / 2 then n
         else if 1 / 2 < r - of_int n then n + 1
         else if even n then n else n + 1)"

definition roundDouble :: "real \<Rightarrow> number" where
  "roundDouble x =
     (if x = 0 then Fin 0
      else
        (let y = \<bar>x\<bar>;
             e = max \<lfloor>log 2 y\<rfloor> (- 1022);
             q = pow2 (e - 52);
             r = of_int (roundTiesToEven (y / q)) * q
         in if 2 ^ 1024 \<le> r then (if x < 0 then NegInf else PosInf)
            else Fin (if x < 0 then - r else r)))"

text \<open>The operator \<open>*\<close> on two numbers.\<close>

fun multiply :: "number \<Rightarrow> number \<Rightarrow> number" where
  "multiply NaN b = NaN"
| "multiply PosInf NaN = NaN"
| "multiply PosInf PosInf = PosInf"
| "multiply PosInf NegInf = NegInf"
| "multiply PosInf (Fin y) = (if y = 0 then NaN else if 0 < y then PosInf else NegInf)"
| "multiply NegInf NaN = NaN"
| "multiply NegInf PosInf = NegInf"
| "multiply NegInf NegInf = PosInf"
| "multiply NegInf (Fin y) = (if y = 0 then NaN else if 0 < y then NegInf else PosInf)"
| "multiply (Fin x) NaN = NaN"
| "multiply (Fin x) PosInf = (if x = 0 then NaN else if 0 < x then PosInf else NegInf)"
| "multiply (Fin x) NegInf = (if x = 0 then NaN else if 0 < x then NegInf else PosInf)"
| "multiply (Fin x) (Fin y) = roundDouble (x * y)"

text \<open>The operator \<open><\<close> on two numbers: false when either is \<open>NaN\<close>.\<close>

fun lessThan :: "number \<Rightarrow> number \<Rightarrow> bool" where
  "lessThan NaN b = False"
| "lessThan PosInf b = False"
| "lessThan NegInf NaN = False"
| "lessThan NegInf NegInf = False"
| "lessThan NegInf PosInf = True"
| "lessThan NegInf (Fin y) = True"
| "lessThan (Fin x) NaN = False"
| "lessThan (Fin x) PosInf = True"
| "lessThan (Fin x) NegInf = False"
| "lessThan (Fin x) (Fin y) = (x < y)"

subsection \<open>The distance functions\<close>

text \<open>
  \<open>calculateDistance\<close> is the haversine expression of the source read over the real
  numbers: its operators and \<open>Math.sin\<close>, \<open>Math.cos\<close>, \<open>Math.sqrt\<close> and \<open>Math.atan2\<close>
  are the exact real functions. The engine evaluates the same expression in binary64,
  with a rounding after every operation and with approximations of the four functions
  that the language leaves to the implementation; the value it returns is not described
  here, and nothing below depends on the body of this definition.
\<close>



text \<open>
  \<open>Number.prototype.toFixed(f)\<close> (ECMAScript): a number that is not finite is written
  as \<open>NaN\<close>, \<open>Infinity\<close> or \<open>-Infinity\<close>. Otherwise the sign, then for a magnitude below
  \<open>10^21\<close> the integer \<open>n\<close> with \<open>n / 10^f\<close> closest to the magnitude (the larger one of
  two), written in decimal, padded with zeros to more than \<open>f\<close> digits, with a point
  before the last \<open>f\<close> digits when \<open>f\<close> is not 0. A magnitude from \<open>10^21\<close> on is
  written by the platform's \<open>Number.prototype.toString\<close>. The closest integer is chosen
  by exact arithmetic on the value of the number.
\<close>

fun toFixed :: "(real \<Rightarrow> string) \<Rightarrow> nat \<Rightarrow> number \<Rightarrow> string" where
  "toFixed nts f NaN = ''NaN''"
| "toFixed nts f PosInf = ''Infinity''"
| "toFixed nts f NegInf = ''-Infinity''"
| "toFixed nts f (Fin x) =
     (let s = (if x < 0 then ''-'' else '''');
          y = (if x < 0 then - x else x)
      in if y \<ge> 10 ^ 21 then s @ nts y
         else
           (let n = nat \<lfloor>y * 10 ^ f + 1 / 2\<rfloor>;
                m = decimal n;
                m' = (if length m \<le> f then replicate (f + 1 - length m) (CHR ''0'') @ m else m)
            in if f \<noteq> 0
               then s @ take (length m' - f) m' @ ''.'' @ drop (length m' - f) m'
               else s @ m))"

definition formatDistance :: "(real \<Rightarrow> string) \<Rightarrow> number \<Rightarrow> string" where
  "formatDistance nts distance =
     (if lessThan distance (Fin 1) then toFixed nts 0 (multiply distance (Fin 5280)) @ '' ft''
      else if lessThan distance (Fin 10) then toFixed nts 1 distance @ '' mi''
      else toFixed nts 0 distance @ '' mi'')"


definition is_digit :: "char \<Rightarrow> bool" where
  "is_digit c = (c \<in> set ''0123456789'')"

section \<open>SDK loader (lib/google-maps.ts, loadGoogleMaps)\<close>

text \<open>
  A promise is pending or settled, for good. The promises that \<open>loadGoogleMaps\<close> creates
  live in a store and are named by their position in it; the module variable
  \<open>googleMapsPromise\<close> holds such a name or \<open>null\<close>. The script elements appended to
  \<open>document.head\<close> are listed with the promise that their handlers settle: each one is a
  load of the SDK that was started.
\<close>

datatype promise_state = Pending | Resolved | Failed thrown

record loader =
  promises :: "promise_state list"
  googleMapsPromise :: "nat option"
  scripts :: "nat list"

definition loader_init :: loader where
  "loader_init = \<lparr>promises = [], googleMapsPromise = None, scripts = []\<rparr>"

text \<open>
  What a call finds: whether it runs in a browser (\<open>window\<close> and \<open>document\<close> exist),
  whether \<open>window.google.maps\<close> is there already, and the API key of the environment.
\<close>

record maps_env =
  browser :: bool
  sdk_present :: bool
  maps_api_key :: "string option"

text \<open>
  The executor of the promise: how the promise stands when the executor returns, and
  whether a script element was appended. Outside a browser \<open>document.createElement\<close>
  throws a \<open>ReferenceError\<close>, which rejects the promise.
\<close>

definition executor :: "maps_env \<Rightarrow> promise_state \<times> bool" where
  "executor env =
     (if browser env \<and> sdk_present env then (Resolved, False)
      else if \<not> browser env then (Failed (Error ''document is not defined''), False)
      else if \<not> (case maps_api_key env of None \<Rightarrow> False | Some k \<Rightarrow> k \<noteq> [])
        then (Failed (Error ''Google Maps API key not found''), False)
      else (Pending, True))"

definition loadGoogleMaps :: "maps_env \<Rightarrow> loader \<Rightarrow> nat \<times> loader" where
  "loadGoogleMaps env st =
     (case googleMapsPromise st of
        Some p \<Rightarrow> (p, st)
      | None \<Rightarrow>
          (let p = length (promises st);
               outcome = fst (executor env);
               appended = snd (executor env)
           in (p, \<lparr>promises = promises st @ [outcome],
                   googleMapsPromise = Some p,
                   scripts = (if appended then scripts st @ [p] else scripts st)\<rparr>)))"

text \<open>\<open>resolve\<close> and \<open>reject\<close> settle a pending promise and do nothing to a settled one.\<close>

definition settle :: "nat \<Rightarrow> promise_state \<Rightarrow> loader \<Rightarrow> loader" where
  "settle p outcome st =
     (if p < length (promises st) \<and> promises st ! p = Pending
      then st\<lparr>promises := (promises st)[p := outcome]\<rparr>
      else st)"

text \<open>
  The handlers of the script element for promise \<open>p\<close>: \<open>onload\<close> finds the SDK or not,
  \<open>onerror\<close> rejects.
\<close>

definition script_onload :: "bool \<Rightarrow> nat \<Rightarrow> loader \<Rightarrow> loader" where
  "script_onload sdk p st = settle p (if sdk then Resolved else Failed (Error MAPS_LOAD_FAILED)) st"

definition script_onerror :: "nat \<Rightarrow> loader \<Rightarrow> loader" where
  "script_onerror p st = settle p (Failed (Error MAPS_LOAD_FAILED)) st"

text \<open>
  What happens in a process: calls of \<open>loadGoogleMaps\<close>, and the browser firing \<open>onload\<close>
  or \<open>onerror\<close> of the \<open>i\<close>-th appended script element. A run returns the promises that
  the calls returned, in order, and the final state.
\<close>

datatype loader_event = Call maps_env | ScriptLoad nat bool | ScriptError nat

fun loader_step :: "loader_event \<Rightarrow> loader \<Rightarrow> nat list \<times> loader" where
  "loader_step (Call env) st = ([fst (loadGoogleMaps env st)], snd (loadGoogleMaps env st))"
| "loader_step (ScriptLoad i sdk) st =
     ([], if i < length (scripts st) then script_onload sdk (scripts st ! i) st else st)"
| "loader_step (ScriptError i) st =
     ([], if i < length (scripts st) then script_onerror (scripts st ! i) st else st)"

fun loader_run :: "loader_event list \<Rightarrow> loader \<Rightarrow> nat list \<times> loader" where
  "loader_run [] st = ([], st)"
| "loader_run (ev # evs) st =
     (fst (loader_step ev st) @ fst (loader_run evs (snd (loader_step ev st))),
      snd (loader_run evs (snd (loader_step ev st))))"

definition loader_inv :: "loader \<Rightarrow> bool" where
  "loader_inv st =
     (if googleMapsPromise st = None then promises st = [] \<and> scripts st = []
      else googleMapsPromise st = Some 0 \<and> length (promises st) = 1
           \<and> (scripts st = [] \<or> scripts st = [0]))"

section \<open>Example environments\<close>

text \<open>
  Concrete configurations, platforms and filters, at which the theorems below are
  instantiated and the definitions evaluated.
\<close>

definition example_config :: config where
  "example_config = OPEN_CHARGE_MAP_CONFIG 25 100"

definition example_client :: ApiClient where
  "example_client = ApiClient_new example_config None"

text \<open>
  A stand-in for \<open>Number.prototype.toString\<close> that is right on the non-negative
  integers below \<open>10^21\<close>: their decimal digits.
\<close>

definition example_numToString :: "real \<Rightarrow> string" where
  "example_numToString x = decimal (nat \<lfloor>x\<rfloor>)"

text \<open>
  Two messages: the one with which \<open>fetch\<close> rejects in Chrome when the network fails,
  and the start of V8's message for reading a property of \<open>null\<close> (which goes on to name
  the property).
\<close>

lift_definition failed_to_fetch :: error_message is "''Failed to fetch''"
  by simp

lift_definition null_read :: error_message is "''Cannot read properties of null''"
  by simp

text \<open>
  A platform on which \<open>fetch\<close> settles to the same result for every URL, and on which no
  converted string, array or object is greater than 0.
\<close>

definition settled_platform :: "fetch_result \<Rightarrow> platform" where
  "settled_platform fr =
     \<lparr>fetch = (\<lambda>u. fr), numToString = example_numToString, nullReadMessage = null_read,
      convertedGreaterZero = (\<lambda>v. Inr False)\<rparr>"

definition http_response :: "nat \<Rightarrow> string \<Rightarrow> json \<Rightarrow> fetch_result" where
  "http_response st txt payload = Fulfilled \<lparr>status = st, statusText = txt, json = Inr payload\<rparr>"

definition falsy_filters :: SearchFilters where
  "falsy_filters =
     no_filters\<lparr>radius := Some 0,
                powerKW := Some \<lparr>powerKW_min = Some 0, powerKW_max = Some 0\<rparr>\<rparr>"

definition browser_with_key :: maps_env where
  "browser_with_key = \<lparr>browser = True, sdk_present = False, maps_api_key = Some ''AIza-example''\<rparr>"

definition browser_without_key :: maps_env where
  "browser_without_key = \<lparr>browser = True, sdk_present = False, maps_api_key = None\<rparr>"

section \<open>Properties of the response cache\<close>

lemma cache_inv_new: "cache_inv ApiCache_new"
  by (simp add: cache_inv_def ApiCache_new_def)

lemma cache_inv_set: "cache_inv c \<Longrightarrow> cache_inv (ApiCache_set now key d c)"
  by (simp add: cache_inv_def ApiCache_set_def distinct_update)

lemma cache_inv_get: "cache_inv c \<Longrightarrow> cache_inv (snd (ApiCache_get now key c))"
  by (simp add: cache_inv_def ApiCache_get_def distinct_delete split: option.splits)

lemma cache_inv_clear: "cache_inv (ApiCache_clear c)"
  by (simp add: cache_inv_def ApiCache_clear_def)

lemma length_delete_present:
  "distinct (map fst c) \<Longrightarrow> map_of c k = Some e \<Longrightarrow> Suc (length (AList.delete k c)) = length c"
proof (induction c)
  case Nil
  then show ?case by simp
next
  case (Cons p c)
  show ?case
  proof (cases "fst p = k")
    case True
    with Cons.prems have "k \<notin> fst ` set c" by auto
    then have "AList.delete k c = c"
      by (simp add: delete_id)
    with True show ?thesis by simp
  next
    case False
    with Cons show ?thesis by (cases p) auto
  qed
qed

text \<open>
  C1 (as amended). After \<open>set(k, v)\<close> at clock reading \<open>t0\<close>, a \<open>get(k)\<close> at clock reading
  \<open>t1\<close> with \<open>t1 - t0\<close> at most the five-minute TTL returns \<open>v\<close> and leaves the cache as it
  was; with \<open>t1 - t0\<close> above the TTL it returns \<open>null\<close> and removes the entry, so the key is
  gone and \<open>size()\<close> is one less. Hence for every \<open>v\<close> other than \<open>null\<close> the lookup returns
  \<open>v\<close> exactly when the elapsed time is within the TTL; a stored \<open>null\<close> comes back as
  \<open>null\<close> at any time.
\<close>

theorem ApiCache_set_then_get:
  assumes "cache_inv c"
  shows "(t1 - t0 \<le> ttl \<longrightarrow>
          ApiCache_get t1 k (ApiCache_set t0 k v c) = (v, ApiCache_set t0 k v c))
    \<and> (ttl < t1 - t0 \<longrightarrow>
          fst (ApiCache_get t1 k (ApiCache_set t0 k v c)) = None
        \<and> map_of (snd (ApiCache_get t1 k (ApiCache_set t0 k v c))) k = None
        \<and> Suc (ApiCache_size (snd (ApiCache_get t1 k (ApiCache_set t0 k v c))))
            = ApiCache_size (ApiCache_set t0 k v c))
    \<and> (v \<noteq> None \<longrightarrow>
          (fst (ApiCache_get t1 k (ApiCache_set t0 k v c)) = v \<longleftrightarrow> t1 - t0 \<le> ttl))"
proof -
  let ?c1 = "ApiCache_set t0 k v c"
  have look: "map_of ?c1 k = Some \<lparr>cache_item.data = v, timestamp = t0\<rparr>"
    by (simp add: ApiCache_set_def update_conv')
  have inv1: "distinct (map fst ?c1)"
    using assms cache_inv_set [of c t0 k v] by (simp add: cache_inv_def)
  have fresh: "t1 - t0 \<le> ttl \<Longrightarrow> ApiCache_get t1 k ?c1 = (v, ?c1)"
    using look by (simp add: ApiCache_get_def)
  have stale: "ttl < t1 - t0 \<Longrightarrow> ApiCache_get t1 k ?c1 = (None, AList.delete k ?c1)"
    using look by (simp add: ApiCache_get_def)
  have gone: "map_of (AList.delete k ?c1) k = None"
    by (simp add: delete_conv')
  have less: "Suc (length (AList.delete k ?c1)) = length ?c1"
    using length_delete_present [OF inv1 look] .
  show ?thesis
  proof (cases "t1 - t0 \<le> ttl")
    case True
    then show ?thesis using fresh by simp
  next
    case False
    then have "ttl < t1 - t0" by simp
    then show ?thesis using stale gone less by (auto simp: ApiCache_size_def)
  qed
qed

theorem ApiCache_set_then_get_witness:
  "cache_inv [(''a'', \<lparr>cache_item.data = Some (1::nat), timestamp = 0\<rparr>)]
   \<and> ttl < 300001 - (0::int)
   \<and> fst (ApiCache_get 300001 ''k'' (ApiCache_set 0 ''k'' (Some (7::nat))
        [(''a'', \<lparr>cache_item.data = Some 1, timestamp = 0\<rparr>)])) = None
   \<and> ApiCache_size (snd (ApiCache_get 300001 ''k'' (ApiCache_set 0 ''k'' (Some (7::nat))
        [(''a'', \<lparr>cache_item.data = Some 1, timestamp = 0\<rparr>)]))) = 1
   \<and> (300000::int) - 0 \<le> ttl
   \<and> fst (ApiCache_get 300000 ''k'' (ApiCache_set 0 ''k'' (Some (7::nat))
        [(''a'', \<lparr>cache_item.data = Some 1, timestamp = 0\<rparr>)])) = Some 7"
proof -
  have inv: "cache_inv [(''a'', \<lparr>cache_item.data = Some (1::nat), timestamp = 0\<rparr>)]"
    by (simp add: cache_inv_def)
  have late: "ttl < 300001 - (0::int)" and early: "(300000::int) - 0 \<le> ttl"
    by (simp_all add: ttl_def)
  show ?thesis
    using inv late early
      ApiCache_set_then_get [OF inv, of 300001 0 "''k''" "Some 7"]
      ApiCache_set_then_get [OF inv, of 300000 0 "''k''" "Some 7"]
    by (simp add: ApiCache_size_def ApiCache_set_def)
qed

text \<open>
  The claim as first stated, for every value \<open>v\<close>, fails at \<open>v = null\<close>: past the TTL the
  lookup returns \<open>null\<close>, which is the value that was stored.
\<close>

theorem ApiCache_set_then_get_counterexample:
  "\<not> (fst (ApiCache_get 300001 ''k'' (ApiCache_set 0 ''k'' (None :: nat option) [])) = None
        \<longleftrightarrow> (300001::int) - 0 \<le> ttl)"
  by (simp add: ApiCache_get_def ApiCache_set_def ttl_def)


section \<open>Properties of the station-directory client\<close>

subsection \<open>The cases of makeRequest, and the keys of a query\<close>

lemma decimal_nonempty: "decimal n \<noteq> []"
  by (subst decimal.simps) simp

lemma message_text_nonempty: "message_text m \<noteq> []"
  using message_text [of m] by simp

lemma makeRequest_rejected:
  "fetch pf (request_url (numToString pf) cl ep ps) = Rejected e \<Longrightarrow>
   makeRequest pf cfg cl ep ps = makeRequest_catch (as_thrown e)"
  by (simp add: makeRequest_def makeRequest_try_def)

lemma makeRequest_not_ok:
  "fetch pf (request_url (numToString pf) cl ep ps) = Fulfilled r \<Longrightarrow> \<not> ok r \<Longrightarrow>
   makeRequest pf cfg cl ep ps =
     makeRequest_catch (Error (if status r = 429 then API_RATE_LIMITED
                               else ''API Error: '' @ decimal (status r) @ '' '' @ statusText r))"
  by (simp add: makeRequest_def makeRequest_try_def)

lemma makeRequest_undecodable:
  "fetch pf (request_url (numToString pf) cl ep ps) = Fulfilled r \<Longrightarrow> ok r \<Longrightarrow> json r = Inl e \<Longrightarrow>
   makeRequest pf cfg cl ep ps = makeRequest_catch (as_thrown e)"
  by (simp add: makeRequest_def makeRequest_try_def)

lemma makeRequest_decoded:
  "fetch pf (request_url (numToString pf) cl ep ps) = Fulfilled r \<Longrightarrow> ok r \<Longrightarrow> json r = Inr d \<Longrightarrow>
   makeRequest pf cfg cl ep ps =
     \<lparr>data = d, success = True, message = None, error = None,
      meta = Some \<lparr>total = (case d of JArr xs \<Rightarrow> length xs | _ \<Rightarrow> 1), page = 1,
                   limit = maxStationsPerRequest cfg\<rparr>\<rparr>"
  by (simp add: makeRequest_def makeRequest_try_def)

lemma makeRequest_success_iff:
  "success (makeRequest pf cfg cl ep ps) \<longleftrightarrow>
     (\<exists>r d. fetch pf (request_url (numToString pf) cl ep ps) = Fulfilled r \<and> ok r \<and> json r = Inr d)"
  by (auto simp: makeRequest_def makeRequest_try_def makeRequest_catch_def
      split: fetch_result.splits sum.splits)

lemma makeRequest_failed:
  "\<not> success (makeRequest pf cfg cl ep ps) \<Longrightarrow>
   \<exists>e. makeRequest pf cfg cl ep ps = makeRequest_catch e
     \<and> ((\<exists>p. fetch pf (request_url (numToString pf) cl ep ps) = Rejected p \<and> e = as_thrown p)
        \<or> (\<exists>r. fetch pf (request_url (numToString pf) cl ep ps) = Fulfilled r
              \<and> (\<not> ok r \<and> e = Error (if status r = 429 then API_RATE_LIMITED
                    else ''API Error: '' @ decimal (status r) @ '' '' @ statusText r)
                 \<or> ok r \<and> (\<exists>p. json r = Inl p \<and> e = as_thrown p))))"
  by (auto simp: makeRequest_def makeRequest_try_def
      split: fetch_result.splits sum.splits if_splits)

lemma as_thrown_text_nonempty:
  "(case as_thrown p of Error m \<Rightarrow> m | NonError \<Rightarrow> GENERIC_ERROR) \<noteq> []"
  by (cases p) (simp_all add: as_thrown_def message_text_nonempty GENERIC_ERROR_def)

lemma caught_text_nonempty:
  assumes "\<not> success (makeRequest pf cfg cl ep ps)"
  shows "\<exists>m. ApiResponse.error (makeRequest pf cfg cl ep ps) = Some m \<and> m \<noteq> []"
proof (cases "fetch pf (request_url (numToString pf) cl ep ps)")
  case (Rejected p)
  then show ?thesis
    by (simp add: makeRequest_rejected makeRequest_catch_def as_thrown_text_nonempty)
next
  case (Fulfilled r)
  show ?thesis
  proof (cases "ok r")
    case False
    with Fulfilled show ?thesis
      by (simp add: makeRequest_not_ok makeRequest_catch_def API_RATE_LIMITED_def)
  next
    case True
    show ?thesis
    proof (cases "json r")
      case (Inl p)
      with Fulfilled True show ?thesis
        by (simp add: makeRequest_undecodable makeRequest_catch_def as_thrown_text_nonempty)
    next
      case (Inr d)
      with Fulfilled True assms show ?thesis
        by (simp add: makeRequest_success_iff)
    qed
  qed
qed

lemma keys_append_param:
  "fst ` set (append_param nts sp kv) \<subseteq> insert (fst kv) (fst ` set sp)"
  by (auto simp: append_param_def split: param_value.splits)

lemma keys_foldl_append_param:
  "fst ` set (foldl (append_param nts) sp kvs) \<subseteq> fst ` set sp \<union> fst ` set kvs"
proof (induction kvs arbitrary: sp)
  case Nil
  then show ?case by simp
next
  case (Cons kv kvs)
  have "fst ` set (foldl (append_param nts) (append_param nts sp kv) kvs)
        \<subseteq> fst ` set (append_param nts sp kv) \<union> fst ` set kvs"
    by (rule Cons.IH)
  also have "\<dots> \<subseteq> insert (fst kv) (fst ` set sp) \<union> fst ` set kvs"
    using keys_append_param [of nts sp kv] by blast
  finally show ?case by auto
qed

lemma keys_request_url:
  "fst ` set (searchParams (request_url nts cl ep (Some kvs))) \<subseteq> insert ''key'' (fst ` set kvs)"
proof -
  have "fst ` set (case apiKey cl of None \<Rightarrow> [] | Some k \<Rightarrow> if k \<noteq> [] then [(''key'', k)] else [])
        \<subseteq> {''key''}"
    by (cases "apiKey cl") auto
  then show ?thesis
    using keys_foldl_append_param
      [of nts "case apiKey cl of None \<Rightarrow> [] | Some k \<Rightarrow> if k \<noteq> [] then [(''key'', k)] else []" kvs]
    by (auto simp: request_url_def Let_def)
qed

lemma notin_num_param: "k' \<noteq> k \<Longrightarrow> k' \<notin> fst ` set (num_param k a)"
  by (cases a) (auto simp: num_param_def)

lemma notin_ids_param: "k' \<noteq> k \<Longrightarrow> k' \<notin> fst ` set (ids_param k a)"
  by (cases a) (auto simp: ids_param_def)

lemma num_param_zero: "num_param k (Some 0) = []"
  by (simp add: num_param_def)

lemma no_distance:
  assumes "radius f = Some 0"
  shows "''distance'' \<notin> fst ` set (searchStations_params cfg f)
     \<and> ''distanceunit'' \<notin> fst ` set (searchStations_params cfg f)"
  using assms unfolding searchStations_params_def
  by (cases "location f"; cases "powerKW f"; cases "openData f")
     (simp_all add: image_Un notin_num_param notin_ids_param)

lemma no_minpower:
  assumes "powerKW f = Some p" "powerKW_min p = Some 0"
  shows "''minpowerkw'' \<notin> fst ` set (searchStations_params cfg f)"
  using assms unfolding searchStations_params_def
  by (cases "location f"; cases "radius f"; cases "openData f")
     (auto simp: image_Un notin_num_param notin_ids_param num_param_zero)

lemma no_maxpower:
  assumes "powerKW f = Some p" "powerKW_max p = Some 0"
  shows "''maxpowerkw'' \<notin> fst ` set (searchStations_params cfg f)"
  using assms unfolding searchStations_params_def
  by (cases "location f"; cases "radius f"; cases "openData f")
     (auto simp: image_Un notin_num_param notin_ids_param num_param_zero)

lemma falsy_dropped:
  "v = Undefined \<or> v = Null \<or> v = Prim (Str []) \<Longrightarrow> append_param nts sp (k, v) = sp"
  by (auto simp: append_param_def)

lemma request_url_drop:
  assumes "v = Undefined \<or> v = Null \<or> v = Prim (Str [])"
  shows "request_url nts cl ep (Some (ps @ (k, v) # qs)) = request_url nts cl ep (Some (ps @ qs))"
  using assms by (simp add: request_url_def Let_def falsy_dropped)

lemma radius_zero_as_absent:
  "searchStations_params cfg (f\<lparr>radius := Some 0\<rparr>) = searchStations_params cfg (f\<lparr>radius := None\<rparr>)"
  by (simp add: searchStations_params_def)

subsection \<open>The envelope\<close>

text \<open>
  C3. For every filter object, when \<open>fetch\<close> answers the request of \<open>searchStations\<close>
  with status 429 the result is \<open>success = false\<close>, the empty array and the rate-limit
  message; with any other status outside 200..299 the result is \<open>success = false\<close>, the
  empty array and the message \<open>API Error: <status> <statusText>\<close>.
\<close>

theorem searchStations_http_error:
  assumes "fetch pf (searchStations_url (numToString pf) cfg cl filters) = Fulfilled r"
  shows "(status r = 429 \<longrightarrow>
            searchStations pf cfg cl filters =
              \<lparr>data = JArr [], success = False, message = None,
               error = Some ''Too many requests. Please wait a moment and try again.'',
               meta = None\<rparr>)
       \<and> (status r \<noteq> 429 \<and> \<not> (200 \<le> status r \<and> status r \<le> 299) \<longrightarrow>
            searchStations pf cfg cl filters =
              \<lparr>data = JArr [], success = False, message = None,
               error = Some (''API Error: '' @ decimal (status r) @ '' '' @ statusText r),
               meta = None\<rparr>)"
proof -
  have u: "fetch pf (request_url (numToString pf) cl ''/poi''
             (Some (searchStations_params cfg filters))) = Fulfilled r"
    using assms by (simp add: searchStations_url_def)
  have limited: "status r = 429 \<Longrightarrow> \<not> ok r"
    by (simp add: ok_def)
  show ?thesis
    using makeRequest_not_ok [OF u, of cfg] limited
    by (auto simp: searchStations_def makeRequest_catch_def ok_def API_RATE_LIMITED_def)
qed

theorem searchStations_http_error_witness:
  "searchStations (settled_platform (http_response 429 ''Too Many Requests'' (JArr [])))
      example_config example_client no_filters =
     \<lparr>data = JArr [], success = False, message = None,
      error = Some ''Too many requests. Please wait a moment and try again.'', meta = None\<rparr>
   \<and> searchStations (settled_platform (http_response 500 ''Internal Server Error'' (JArr [JNum (Fin 1)])))
      example_config example_client (no_filters\<lparr>radius := Some 10\<rparr>) =
     \<lparr>data = JArr [], success = False, message = None,
      error = Some ''API Error: 500 Internal Server Error'', meta = None\<rparr>"
proof -
  have a: "fetch (settled_platform (http_response 429 ''Too Many Requests'' (JArr [])))
             (searchStations_url
                (numToString (settled_platform (http_response 429 ''Too Many Requests'' (JArr []))))
                example_config example_client no_filters)
           = Fulfilled \<lparr>status = 429, statusText = ''Too Many Requests'', json = Inr (JArr [])\<rparr>"
    by (simp add: settled_platform_def http_response_def)
  have b: "fetch (settled_platform (http_response 500 ''Internal Server Error'' (JArr [JNum (Fin 1)])))
             (searchStations_url
                (numToString (settled_platform (http_response 500 ''Internal Server Error'' (JArr [JNum (Fin 1)]))))
                example_config example_client (no_filters\<lparr>radius := Some 10\<rparr>))
           = Fulfilled \<lparr>status = 500, statusText = ''Internal Server Error'', json = Inr (JArr [JNum (Fin 1)])\<rparr>"
    by (simp add: settled_platform_def http_response_def)
  show ?thesis
    using searchStations_http_error [OF a] searchStations_http_error [OF b]
    by (simp add: decimal.simps digit_char_def)
qed

text \<open>
  C4. When the query of \<open>getStationById\<close> succeeds (a 2xx response whose body decodes to
  an array), an empty array gives \<open>success = false\<close> with the station-not-found message,
  and a non-empty array gives its first element, with the success flag and the metadata of
  the response of \<open>makeRequest\<close>.
\<close>

theorem getStationById_result:
  assumes "fetch pf (request_url (numToString pf) cl ''/poi'' (Some (getStationById_params ident)))
             = Fulfilled r"
      and "ok r"
      and "json r = Inr (JArr xs)"
  shows "(length xs = 0 \<longrightarrow>
            getStationById pf cfg cl ident =
              Inr \<lparr>data = Some (JObj []), success = False, message = None,
                   error = Some ''Station not found. Please try a different search.'',
                   meta = None\<rparr>)
       \<and> (length xs > 0 \<longrightarrow>
            getStationById pf cfg cl ident =
              Inr \<lparr>data = Some (xs ! 0),
                   success = success (makeRequest pf cfg cl ''/poi''
                                        (Some (getStationById_params ident))),
                   message = None,
                   error = None,
                   meta = meta (makeRequest pf cfg cl ''/poi''
                                  (Some (getStationById_params ident)))\<rparr>
          \<and> getStationById pf cfg cl ident =
              Inr \<lparr>data = Some (xs ! 0), success = True, message = None, error = None,
                   meta = Some \<lparr>total = length xs, page = 1,
                                limit = maxStationsPerRequest cfg\<rparr>\<rparr>)"
  using makeRequest_decoded [OF assms, of cfg]
  by (simp add: getStationById_def Let_def not_found_def first_of_def STATION_NOT_FOUND_def)

theorem getStationById_result_witness:
  "getStationById (settled_platform (http_response 200 ''OK'' (JArr [])))
      example_config example_client 42 =
     Inr \<lparr>data = Some (JObj []), success = False, message = None,
          error = Some ''Station not found. Please try a different search.'', meta = None\<rparr>
   \<and> getStationById (settled_platform (http_response 200 ''OK'' (JArr [JStr ''a'', JStr ''b''])))
      example_config example_client 42 =
     Inr \<lparr>data = Some (JStr ''a''), success = True, message = None, error = None,
          meta = Some \<lparr>total = 2, page = 1, limit = 100\<rparr>\<rparr>"
proof -
  have a: "fetch (settled_platform (http_response 200 ''OK'' (JArr [])))
             (request_url (numToString (settled_platform (http_response 200 ''OK'' (JArr []))))
                example_client ''/poi'' (Some (getStationById_params 42)))
           = Fulfilled \<lparr>status = 200, statusText = ''OK'', json = Inr (JArr [])\<rparr>"
    by (simp add: settled_platform_def http_response_def)
  have b: "fetch (settled_platform (http_response 200 ''OK'' (JArr [JStr ''a'', JStr ''b''])))
             (request_url
                (numToString (settled_platform (http_response 200 ''OK'' (JArr [JStr ''a'', JStr ''b'']))))
                example_client ''/poi'' (Some (getStationById_params 42)))
           = Fulfilled \<lparr>status = 200, statusText = ''OK'', json = Inr (JArr [JStr ''a'', JStr ''b''])\<rparr>"
    by (simp add: settled_platform_def http_response_def)
  have okay: "ok \<lparr>status = 200, statusText = ''OK'', json = Inr v\<rparr>" for v
    by (simp add: ok_def)
  have ja: "json \<lparr>status = 200, statusText = ''OK'', json = Inr (JArr ys)\<rparr> = Inr (JArr ys)" for ys
    by simp
  have none: "length ([] :: json list) = 0"
    by simp
  have two: "length [JStr ''a'', JStr ''b''] > 0"
    by simp
  have e: "getStationById (settled_platform (http_response 200 ''OK'' (JArr [])))
      example_config example_client 42 =
     Inr \<lparr>data = Some (JObj []), success = False, message = None,
          error = Some ''Station not found. Please try a different search.'', meta = None\<rparr>"
    using getStationById_result [OF a okay ja, of example_config] none by blast
  have f: "getStationById (settled_platform (http_response 200 ''OK'' (JArr [JStr ''a'', JStr ''b''])))
      example_config example_client 42 =
     Inr \<lparr>data = Some ([JStr ''a'', JStr ''b''] ! 0), success = True, message = None, error = None,
          meta = Some \<lparr>total = length [JStr ''a'', JStr ''b''], page = 1,
                       limit = maxStationsPerRequest example_config\<rparr>\<rparr>"
    using getStationById_result [OF b okay ja, of example_config] two by blast
  show ?thesis
    using e f by (simp add: example_config_def OPEN_CHARGE_MAP_CONFIG_def)
qed

text \<open>
  C2 (as amended). \<open>makeRequest\<close>, and with it \<open>searchStations\<close> and the five lookups, which
  are calls of it, returns an envelope for every request: whatever is thrown inside is
  caught and turned into an envelope. The envelope carries the \<open>success\<close> flag, which is
  true exactly when \<open>fetch\<close> is fulfilled with a 2xx response whose body decodes. On every
  failure the envelope has \<open>success = false\<close>, the empty array as data, no metadata and a
  non-empty error string: the message of the \<open>Error\<close> that \<open>fetch\<close> or \<open>response.json()\<close>
  threw, the generic message for a thrown value that is no \<open>Error\<close>, the rate-limit
  message for status 429, and \<open>API Error: <status> <statusText>\<close> for any other status
  outside 200..299. \<open>getStationById\<close> answers a failed request with \<open>success = false\<close>, the
  empty object \<open>{}\<close> as data and the station-not-found message.
\<close>

theorem client_failure_envelope:
  "(\<forall>e. makeRequest_try pf cfg cl ep ps = Inl e \<longrightarrow>
        makeRequest pf cfg cl ep ps = makeRequest_catch e)
   \<and> (success (makeRequest pf cfg cl ep ps) \<longleftrightarrow>
        (\<exists>r d. fetch pf (request_url (numToString pf) cl ep ps) = Fulfilled r
            \<and> ok r \<and> json r = Inr d))
   \<and> (\<not> success (makeRequest pf cfg cl ep ps) \<longrightarrow>
        data (makeRequest pf cfg cl ep ps) = JArr []
      \<and> meta (makeRequest pf cfg cl ep ps) = None
      \<and> (\<exists>m. ApiResponse.error (makeRequest pf cfg cl ep ps) = Some m \<and> m \<noteq> []))
   \<and> (\<forall>m. fetch pf (request_url (numToString pf) cl ep ps) = Rejected (PlatformError m) \<longrightarrow>
        ApiResponse.error (makeRequest pf cfg cl ep ps) = Some (message_text m))
   \<and> (fetch pf (request_url (numToString pf) cl ep ps) = Rejected PlatformOther \<longrightarrow>
        ApiResponse.error (makeRequest pf cfg cl ep ps)
          = Some ''An unexpected error occurred. Please try again.'')
   \<and> (\<forall>r. fetch pf (request_url (numToString pf) cl ep ps) = Fulfilled r \<and> status r = 429 \<longrightarrow>
        ApiResponse.error (makeRequest pf cfg cl ep ps)
          = Some ''Too many requests. Please wait a moment and try again.'')
   \<and> (\<forall>r. fetch pf (request_url (numToString pf) cl ep ps) = Fulfilled r
          \<and> \<not> ok r \<and> status r \<noteq> 429 \<longrightarrow>
        ApiResponse.error (makeRequest pf cfg cl ep ps)
          = Some (''API Error: '' @ decimal (status r) @ '' '' @ statusText r))
   \<and> (\<forall>r m. fetch pf (request_url (numToString pf) cl ep ps) = Fulfilled r
          \<and> ok r \<and> json r = Inl (PlatformError m) \<longrightarrow>
        ApiResponse.error (makeRequest pf cfg cl ep ps) = Some (message_text m))
   \<and> (\<forall>r. fetch pf (request_url (numToString pf) cl ep ps) = Fulfilled r
          \<and> ok r \<and> json r = Inl PlatformOther \<longrightarrow>
        ApiResponse.error (makeRequest pf cfg cl ep ps)
          = Some ''An unexpected error occurred. Please try again.'')
   \<and> searchStations pf cfg cl filters
        = makeRequest pf cfg cl ''/poi'' (Some (searchStations_params cfg filters))
   \<and> getConnectionTypes pf cfg cl = makeRequest pf cfg cl ''/connectiontypes'' None
   \<and> getOperators pf cfg cl = makeRequest pf cfg cl ''/operators'' None
   \<and> getCountries pf cfg cl = makeRequest pf cfg cl ''/countries'' None
   \<and> getUsageTypes pf cfg cl = makeRequest pf cfg cl ''/usagetypes'' None
   \<and> getStatusTypes pf cfg cl = makeRequest pf cfg cl ''/statustypes'' None
   \<and> (\<not> success (makeRequest pf cfg cl ''/poi'' (Some (getStationById_params ident))) \<longrightarrow>
        getStationById pf cfg cl ident =
          Inr \<lparr>data = Some (JObj []), success = False, message = None,
               error = Some ''Station not found. Please try a different search.'',
               meta = None\<rparr>)"
proof -
  let ?u = "request_url (numToString pf) cl ep ps"
  let ?R = "makeRequest pf cfg cl ep ps"
  have caught: "\<forall>e. makeRequest_try pf cfg cl ep ps = Inl e \<longrightarrow> ?R = makeRequest_catch e"
    by (simp add: makeRequest_def)
  have failed: "\<not> success ?R \<longrightarrow>
      data ?R = JArr [] \<and> meta ?R = None \<and> (\<exists>m. ApiResponse.error ?R = Some m \<and> m \<noteq> [])"
  proof
    assume f: "\<not> success ?R"
    from makeRequest_failed [OF f] obtain e where "?R = makeRequest_catch e"
      by blast
    then have "data ?R = JArr []" and "meta ?R = None"
      by (simp_all add: makeRequest_catch_def)
    then show "data ?R = JArr [] \<and> meta ?R = None
        \<and> (\<exists>m. ApiResponse.error ?R = Some m \<and> m \<noteq> [])"
      using caught_text_nonempty [OF f] by simp
  qed
  have net: "\<forall>m. fetch pf ?u = Rejected (PlatformError m) \<longrightarrow>
      ApiResponse.error ?R = Some (message_text m)"
    by (simp add: makeRequest_rejected makeRequest_catch_def as_thrown_def)
  have net': "fetch pf ?u = Rejected PlatformOther \<longrightarrow>
      ApiResponse.error ?R = Some ''An unexpected error occurred. Please try again.''"
    by (simp add: makeRequest_rejected makeRequest_catch_def as_thrown_def GENERIC_ERROR_def)
  have limited: "\<forall>r. fetch pf ?u = Fulfilled r \<and> status r = 429 \<longrightarrow>
      ApiResponse.error ?R = Some ''Too many requests. Please wait a moment and try again.''"
  proof (intro allI impI)
    fix r assume h: "fetch pf ?u = Fulfilled r \<and> status r = 429"
    then have "\<not> ok r" by (simp add: ok_def)
    with h show "ApiResponse.error ?R
        = Some ''Too many requests. Please wait a moment and try again.''"
      using makeRequest_not_ok [of pf cl ep ps r cfg]
      by (simp add: makeRequest_catch_def API_RATE_LIMITED_def)
  qed
  have other: "\<forall>r. fetch pf ?u = Fulfilled r \<and> \<not> ok r \<and> status r \<noteq> 429 \<longrightarrow>
      ApiResponse.error ?R = Some (''API Error: '' @ decimal (status r) @ '' '' @ statusText r)"
  proof (intro allI impI)
    fix r assume h: "fetch pf ?u = Fulfilled r \<and> \<not> ok r \<and> status r \<noteq> 429"
    then show "ApiResponse.error ?R
        = Some (''API Error: '' @ decimal (status r) @ '' '' @ statusText r)"
      using makeRequest_not_ok [of pf cl ep ps r cfg]
      by (simp add: makeRequest_catch_def)
  qed
  have dec: "\<forall>r m. fetch pf ?u = Fulfilled r \<and> ok r \<and> json r = Inl (PlatformError m) \<longrightarrow>
      ApiResponse.error ?R = Some (message_text m)"
  proof (intro allI impI)
    fix r m assume h: "fetch pf ?u = Fulfilled r \<and> ok r \<and> json r = Inl (PlatformError m)"
    then show "ApiResponse.error ?R = Some (message_text m)"
      using makeRequest_undecodable [of pf cl ep ps r "PlatformError m" cfg]
      by (simp add: makeRequest_catch_def as_thrown_def)
  qed
  have dec': "\<forall>r. fetch pf ?u = Fulfilled r \<and> ok r \<and> json r = Inl PlatformOther \<longrightarrow>
      ApiResponse.error ?R = Some ''An unexpected error occurred. Please try again.''"
  proof (intro allI impI)
    fix r assume h: "fetch pf ?u = Fulfilled r \<and> ok r \<and> json r = Inl PlatformOther"
    then show "ApiResponse.error ?R = Some ''An unexpected error occurred. Please try again.''"
      using makeRequest_undecodable [of pf cl ep ps r PlatformOther cfg]
      by (simp add: makeRequest_catch_def as_thrown_def GENERIC_ERROR_def)
  qed
  have built: "searchStations pf cfg cl filters
        = makeRequest pf cfg cl ''/poi'' (Some (searchStations_params cfg filters))"
    "getConnectionTypes pf cfg cl = makeRequest pf cfg cl ''/connectiontypes'' None"
    "getOperators pf cfg cl = makeRequest pf cfg cl ''/operators'' None"
    "getCountries pf cfg cl = makeRequest pf cfg cl ''/countries'' None"
    "getUsageTypes pf cfg cl = makeRequest pf cfg cl ''/usagetypes'' None"
    "getStatusTypes pf cfg cl = makeRequest pf cfg cl ''/statustypes'' None"
    by (simp_all add: searchStations_def getConnectionTypes_def getOperators_def
        getCountries_def getUsageTypes_def getStatusTypes_def)
  have byid: "\<not> success (makeRequest pf cfg cl ''/poi'' (Some (getStationById_params ident))) \<longrightarrow>
        getStationById pf cfg cl ident =
          Inr \<lparr>data = Some (JObj []), success = False, message = None,
               error = Some ''Station not found. Please try a different search.'',
               meta = None\<rparr>"
    by (simp add: getStationById_def Let_def not_found_def STATION_NOT_FOUND_def)
  show ?thesis
    using caught makeRequest_success_iff [of pf cfg cl ep ps] failed net net' limited other
      dec dec' built byid
    by blast
qed

theorem client_failure_envelope_witness:
  "\<not> success (makeRequest (settled_platform (Rejected (PlatformError failed_to_fetch)))
        example_config example_client ''/operators'' None)
   \<and> makeRequest (settled_platform (Rejected (PlatformError failed_to_fetch)))
        example_config example_client ''/operators'' None
      = \<lparr>data = JArr [], success = False, message = None,
         error = Some ''Failed to fetch'', meta = None\<rparr>
   \<and> getStationById (settled_platform (Rejected (PlatformError failed_to_fetch)))
        example_config example_client 42
      = Inr \<lparr>data = Some (JObj []), success = False, message = None,
             error = Some ''Station not found. Please try a different search.'',
             meta = None\<rparr>
   \<and> ApiResponse.error (makeRequest
        (settled_platform (http_response 503 ''Service Unavailable'' JNull))
        example_config example_client ''/countries'' None)
      = Some ''API Error: 503 Service Unavailable''"
proof -
  let ?pf = "settled_platform (Rejected (PlatformError failed_to_fetch))"
  let ?pg = "settled_platform (http_response 503 ''Service Unavailable'' JNull)"
  have rej: "fetch ?pf (request_url (numToString ?pf) example_client ep ps)
      = Rejected (PlatformError failed_to_fetch)" for ep ps
    by (simp add: settled_platform_def)
  have f1: "\<not> success (makeRequest ?pf example_config example_client ep ps)" for ep ps
    by (simp add: makeRequest_def makeRequest_try_def makeRequest_catch_def settled_platform_def)
  note t1 = client_failure_envelope [of ?pf example_config example_client "''/operators''" None _ 42]
  have e1: "ApiResponse.error (makeRequest ?pf example_config example_client ''/operators'' None)
      = Some (message_text failed_to_fetch)"
    using t1 rej [of "''/operators''" None] by blast
  have d1: "data (makeRequest ?pf example_config example_client ''/operators'' None) = JArr []
      \<and> meta (makeRequest ?pf example_config example_client ''/operators'' None) = None"
    using t1 f1 [of "''/operators''" None] by blast
  have m1: "message (makeRequest ?pf example_config example_client ''/operators'' None) = None"
    by (simp add: makeRequest_def makeRequest_try_def makeRequest_catch_def settled_platform_def)
  have whole: "makeRequest ?pf example_config example_client ''/operators'' None
      = \<lparr>data = JArr [], success = False, message = None,
         error = Some ''Failed to fetch'', meta = None\<rparr>"
    using e1 d1 m1 f1 [of "''/operators''" None]
    by (cases "makeRequest ?pf example_config example_client ''/operators'' None")
       (simp add: failed_to_fetch.rep_eq)
  have g1: "getStationById ?pf example_config example_client 42
      = Inr \<lparr>data = Some (JObj []), success = False, message = None,
             error = Some ''Station not found. Please try a different search.'',
             meta = None\<rparr>"
    using t1 f1 [of "''/poi''" "Some (getStationById_params 42)"] by blast
  have unav: "fetch ?pg (request_url (numToString ?pg) example_client ''/countries'' None)
      = Fulfilled \<lparr>status = 503, statusText = ''Service Unavailable'', json = Inr JNull\<rparr>
      \<and> \<not> ok \<lparr>status = 503, statusText = ''Service Unavailable'', json = Inr JNull\<rparr>
      \<and> status \<lparr>status = 503, statusText = ''Service Unavailable'', json = Inr JNull\<rparr> \<noteq> 429"
    by (simp add: settled_platform_def http_response_def ok_def)
  have "ApiResponse.error (makeRequest ?pg example_config example_client ''/countries'' None)
      = Some (''API Error: ''
          @ decimal (status \<lparr>status = 503, statusText = ''Service Unavailable'', json = Inr JNull\<rparr>)
          @ '' ''
          @ statusText \<lparr>status = 503, statusText = ''Service Unavailable'', json = Inr JNull\<rparr>)"
    using client_failure_envelope [of ?pg example_config example_client "''/countries''" None] unav
    by blast
  then have e2: "ApiResponse.error (makeRequest ?pg example_config example_client ''/countries'' None)
      = Some ''API Error: 503 Service Unavailable''"
    by (simp add: decimal.simps digit_char_def)
  show ?thesis
    using f1 [of "''/operators''" None] whole g1 e2 by blast
qed

text \<open>
  The claim as first stated fails at \<open>getStationById\<close>: a failed request is answered with
  the empty object as data, not with an empty array; and when a 2xx response has the body
  \<open>null\<close>, reading \<open>response.data.length\<close> throws a \<open>TypeError\<close> to the caller.
\<close>

theorem client_failure_envelope_counterexample:
  "getStationById (settled_platform (http_response 500 ''Internal Server Error'' (JArr [])))
        example_config example_client 42
     = Inr \<lparr>data = Some (JObj []), success = False, message = None,
            error = Some ''Station not found. Please try a different search.'',
            meta = None\<rparr>
   \<and> JObj [] \<noteq> JArr []
   \<and> getStationById (settled_platform (http_response 200 ''OK'' JNull))
        example_config example_client 42
     = Inl (Error ''Cannot read properties of null'')"
  by (simp add: getStationById_def Let_def makeRequest_def makeRequest_try_def
      makeRequest_catch_def settled_platform_def http_response_def ok_def not_found_def
      STATION_NOT_FOUND_def null_read.rep_eq)

text \<open>
  C10. Falsy filter values leave no trace in the query: with \<open>radius = 0\<close> there is no
  \<open>distance\<close> and no \<open>distanceunit\<close> parameter, and the URL is the one of the same
  filters without a radius; a \<open>powerKW\<close> bound equal to 0 gives no \<open>minpowerkw\<close> or
  \<open>maxpowerkw\<close> parameter; and \<open>makeRequest\<close> drops a parameter whose value is
  \<open>undefined\<close>, \<open>null\<close> or the empty string: the URL and the result are those of the
  request without it. So two different filter objects can give the same query.
\<close>

theorem falsy_values_omitted:
  "(radius f = Some 0 \<longrightarrow>
      ''distance'' \<notin> fst ` set (searchParams (searchStations_url nts cfg cl f))
    \<and> ''distanceunit'' \<notin> fst ` set (searchParams (searchStations_url nts cfg cl f))
    \<and> searchStations_url nts cfg cl f = searchStations_url nts cfg cl (f\<lparr>radius := None\<rparr>))
   \<and> (powerKW f = Some p \<and> powerKW_min p = Some 0 \<longrightarrow>
      ''minpowerkw'' \<notin> fst ` set (searchParams (searchStations_url nts cfg cl f)))
   \<and> (powerKW f = Some p \<and> powerKW_max p = Some 0 \<longrightarrow>
      ''maxpowerkw'' \<notin> fst ` set (searchParams (searchStations_url nts cfg cl f)))
   \<and> (v = Undefined \<or> v = Null \<or> v = Prim (Str []) \<longrightarrow>
      request_url nts cl ep (Some (ps @ (k, v) # qs)) = request_url nts cl ep (Some (ps @ qs))
    \<and> makeRequest pf cfg cl ep (Some (ps @ (k, v) # qs)) = makeRequest pf cfg cl ep (Some (ps @ qs)))"
proof -
  have keys: "fst ` set (searchParams (searchStations_url nts cfg cl f))
      \<subseteq> insert ''key'' (fst ` set (searchStations_params cfg f))"
    unfolding searchStations_url_def by (rule keys_request_url)
  have r0: "radius f = Some 0 \<Longrightarrow>
      searchStations_params cfg f = searchStations_params cfg (f\<lparr>radius := None\<rparr>)"
    by (simp add: searchStations_params_def)
  have same: "makeRequest pf cfg cl ep (Some (ps @ (k, v) # qs)) = makeRequest pf cfg cl ep (Some (ps @ qs))"
    if "v = Undefined \<or> v = Null \<or> v = Prim (Str [])"
    by (simp add: makeRequest_def makeRequest_try_def request_url_drop [OF that])
  have a: "radius f = Some 0 \<Longrightarrow>
      ''distance'' \<notin> fst ` set (searchParams (searchStations_url nts cfg cl f))
    \<and> ''distanceunit'' \<notin> fst ` set (searchParams (searchStations_url nts cfg cl f))"
    using keys no_distance [of f cfg] by auto
  have b: "powerKW f = Some p \<Longrightarrow> powerKW_min p = Some 0 \<Longrightarrow>
      ''minpowerkw'' \<notin> fst ` set (searchParams (searchStations_url nts cfg cl f))"
    using keys no_minpower [of f p cfg] by auto
  have c: "powerKW f = Some p \<Longrightarrow> powerKW_max p = Some 0 \<Longrightarrow>
      ''maxpowerkw'' \<notin> fst ` set (searchParams (searchStations_url nts cfg cl f))"
    using keys no_maxpower [of f p cfg] by auto
  show ?thesis
    using a b c r0 same request_url_drop [of v nts cl ep ps k qs]
    by (simp add: searchStations_url_def)
qed

theorem falsy_values_omitted_witness:
  "radius falsy_filters = Some 0
   \<and> powerKW falsy_filters = Some \<lparr>powerKW_min = Some 0, powerKW_max = Some 0\<rparr>
   \<and> ''distance'' \<notin> fst ` set (searchParams
         (searchStations_url example_numToString example_config example_client falsy_filters))
   \<and> ''minpowerkw'' \<notin> fst ` set (searchParams
         (searchStations_url example_numToString example_config example_client falsy_filters))
   \<and> ''maxpowerkw'' \<notin> fst ` set (searchParams
         (searchStations_url example_numToString example_config example_client falsy_filters))
   \<and> searchStations_url example_numToString example_config example_client falsy_filters
       = searchStations_url example_numToString example_config example_client
           (falsy_filters\<lparr>radius := None\<rparr>)
   \<and> request_url example_numToString example_client ''/poi''
         (Some ([(''output'', Prim (Str ''json''))] @ (''countrycode'', Prim (Str [])) # []))
       = request_url example_numToString example_client ''/poi''
         (Some ([(''output'', Prim (Str ''json''))] @ []))"
proof -
  have r: "radius falsy_filters = Some 0"
    and p: "powerKW falsy_filters = Some \<lparr>powerKW_min = Some 0, powerKW_max = Some 0\<rparr>"
    by (simp_all add: falsy_filters_def no_filters_def)
  have lo: "powerKW_min \<lparr>powerKW_min = Some 0, powerKW_max = Some 0\<rparr> = Some 0"
    and hi: "powerKW_max \<lparr>powerKW_min = Some 0, powerKW_max = Some 0\<rparr> = Some 0"
    by simp_all
  show ?thesis
    using r p lo hi
      falsy_values_omitted [where f = falsy_filters and nts = example_numToString
        and cfg = example_config and cl = example_client
        and p = "\<lparr>powerKW_min = Some 0, powerKW_max = Some 0\<rparr>" and v = "Prim (Str [])"
        and ep = "''/poi''" and ps = "[(''output'', Prim (Str ''json''))]"
        and k = "''countrycode''" and qs = "[]"
        and pf = "settled_platform (Rejected PlatformOther)"]
    by blast
qed

text \<open>The whole query of a search whose only filters are falsy: the six defaults.\<close>

lemma falsy_query:
  "searchParams (searchStations_url example_numToString example_config example_client falsy_filters)
   = [(''output'', ''json''), (''countrycode'', ''US''), (''maxresults'', ''100''),
      (''compact'', ''true''), (''verbose'', ''false''), (''includecomments'', ''true'')]"
  by (simp add: searchStations_url_def request_url_def searchStations_params_def falsy_filters_def
      no_filters_def example_config_def example_client_def OPEN_CHARGE_MAP_CONFIG_def
      ApiClient_new_def append_param_def toString_def or_str_def or_num_def or_bool_def
      num_param_def ids_param_def example_numToString_def decimal.simps digit_char_def)


section \<open>Properties of the geolocation adapter\<close>

lemma getCurrentPosition_unsupported:
  "GeolocationState.error (state (getCurrentPosition False h)) = Some LOCATION_UNAVAILABLE
   \<and> \<not> loading (state (getCurrentPosition False h))"
  by (simp add: getCurrentPosition_def)

lemma startWatching_unsupported:
  "GeolocationState.error (state (startWatching False wid h)) = Some LOCATION_UNAVAILABLE
   \<and> loading (state (startWatching False wid h)) = loading (state h)"
  by (simp add: startWatching_def)

lemma hook_step_unsupported:
  "\<not> loading (state h) \<Longrightarrow> \<not> loading (state (hook_step False h ev))"
  by (cases ev)
    (simp_all add: getCurrentPosition_def startWatching_def stopWatching_def clearError_def
      reset_def onSuccess_def onError_def Let_def)

lemma foldl_hook_step_unsupported:
  "\<not> loading (state h) \<Longrightarrow> \<not> loading (state (foldl (hook_step False) h evs))"
proof (induction evs arbitrary: h)
  case Nil
  then show ?case by simp
next
  case (Cons ev evs)
  from Cons.prems have "\<not> loading (state (hook_step False h ev))"
    by (rule hook_step_unsupported)
  then show ?case
    using Cons.IH by simp
qed

lemma hook_run_unsupported: "\<not> loading (state (hook_run False evs))"
  unfolding hook_run_def by (rule foldl_hook_step_unsupported) (simp add: initial_hook_def)

text \<open>
  C8. Without the geolocation capability, a call of \<open>getCurrentPosition\<close> or of
  \<open>startWatching\<close>, after anything that happened to the hook before, leaves at once a
  state with the unavailable-location message as error and the loading flag false.
  \<open>getCurrentPosition\<close> clears the flag itself; \<open>startWatching\<close> leaves the flag as it
  is, and without the capability the flag is false in every state the hook reaches.
\<close>

theorem geolocation_unsupported:
  "GeolocationState.error (state (getCurrentPosition False (hook_run False evs)))
     = Some ''Location services are not available on this device.''
   \<and> \<not> loading (state (getCurrentPosition False (hook_run False evs)))
   \<and> GeolocationState.error (state (startWatching False wid (hook_run False evs)))
     = Some ''Location services are not available on this device.''
   \<and> \<not> loading (state (startWatching False wid (hook_run False evs)))"
  using getCurrentPosition_unsupported [of "hook_run False evs"]
    startWatching_unsupported [of wid "hook_run False evs"] hook_run_unsupported [of evs]
  by (simp add: LOCATION_UNAVAILABLE_def)

text \<open>Mounting in watch mode without the capability.\<close>

lemma mount_unsupported:
  "state (hook_run False [StartWatching 0]) =
     \<lparr>latitude = None, longitude = None, accuracy = None,
      error = Some ''Location services are not available on this device.'', loading = False\<rparr>"
  by (simp add: hook_run_def initial_hook_def startWatching_def LOCATION_UNAVAILABLE_def)


section \<open>Properties of the distance utility\<close>


subsection \<open>Rounding to a double\<close>

lemma pow2_powr: "pow2 e = 2 powr real_of_int e"
proof (cases "0 \<le> e")
  case True
  then obtain n where e: "e = int n"
    using zero_le_imp_eq_int by blast
  show ?thesis
    unfolding e by (simp add: pow2_def powr_realpow)
next
  case False
  define n where "n = nat (- e)"
  have e: "e = - int n" and n: "0 < n"
    using False by (simp_all add: n_def)
  show ?thesis
    unfolding e using n by (simp add: pow2_def powr_minus powr_realpow divide_inverse)
qed

text \<open>The exponent of a positive real: \<open>e\<close> when the real lies in \<open>[2^e, 2^(e+1))\<close>.\<close>

lemma binade: "pow2 e \<le> y \<Longrightarrow> y < pow2 (e + 1) \<Longrightarrow> \<lfloor>log 2 y\<rfloor> = e"
proof -
  assume lo: "pow2 e \<le> y" and hi: "y < pow2 (e + 1)"
  have "0 < pow2 e"
    by (simp add: pow2_powr)
  with lo have "0 < y"
    by linarith
  then show ?thesis
    using lo hi floor_log_eq_powr_iff [of y 2 e] by (simp add: pow2_powr)
qed

text \<open>
  Products that are doubles are not changed by the rounding; the product of the double
  nearest to \<open>5.5 / 5280\<close> with 5280 is rounded up to \<open>5.5\<close>, and a third is rounded to the
  double below it.
\<close>

lemma roundDouble_1320: "roundDouble 1320 = Fin 1320"
  by (simp add: roundDouble_def Let_def binade [of 10] pow2_def roundTiesToEven_def)

lemma roundDouble_2640: "roundDouble 2640 = Fin 2640"
  by (simp add: roundDouble_def Let_def binade [of 11] pow2_def roundTiesToEven_def)

lemma roundDouble_up: "roundDouble (4803839602528529 / 2 ^ 62 * 5280) = Fin 5.5"
  by (simp add: roundDouble_def Let_def binade [of 2] pow2_def roundTiesToEven_def)

lemma roundDouble_third: "roundDouble (1 / 3) = Fin (6004799503160661 / 2 ^ 54)"
  by (simp add: roundDouble_def Let_def binade [of "- 2"] pow2_def roundTiesToEven_def)

subsection \<open>The digits that toFixed writes\<close>

lemma digit_char_is_digit: "d < 10 \<Longrightarrow> is_digit (digit_char d)"
proof -
  assume "d < 10"
  then have "d < length ''0123456789''" by simp
  then have "''0123456789'' ! d \<in> set ''0123456789''" by (rule nth_mem)
  then show ?thesis by (simp only: is_digit_def digit_char_def)
qed

lemma decimal_digits: "list_all is_digit (decimal n)"
proof (induction n rule: decimal.induct)
  case (1 n)
  show ?case
  proof (cases "n < 10")
    case True
    then show ?thesis
      by (subst decimal.simps) (simp add: digit_char_is_digit)
  next
    case False
    then have "list_all is_digit (decimal (n div 10))"
      using "1.IH" by simp
    moreover have "is_digit (digit_char (n mod 10))"
      by (rule digit_char_is_digit) simp
    ultimately show ?thesis
      using False by (subst decimal.simps) simp
  qed
qed

lemma decimal_snoc: "10 \<le> n \<Longrightarrow> decimal n = decimal (n div 10) @ [digit_char (n mod 10)]"
  by (subst decimal.simps) simp

lemma toFixed_0: "\<bar>x\<bar> < 10 ^ 21 \<Longrightarrow>
  toFixed nts 0 (Fin x) = (if x < 0 then ''-'' else '''') @ decimal (nat \<lfloor>\<bar>x\<bar> + 1 / 2\<rfloor>)"
  by (simp add: Let_def abs_real_def)

lemma toFixed_1: 
  assumes "1 \<le> x" "x < 10 ^ 21"
  shows "toFixed nts 1 (Fin x) =
     decimal (nat \<lfloor>x * 10 + 1 / 2\<rfloor> div 10) @ ''.'' @ [digit_char (nat \<lfloor>x * 10 + 1 / 2\<rfloor> mod 10)]"
proof -
  define n where "n = nat \<lfloor>x * 10 + 1 / 2\<rfloor>"
  have "(10::int) \<le> \<lfloor>x * 10 + 1 / 2\<rfloor>"
    using assms(1) by (simp add: le_floor_iff)
  then have n10: "10 \<le> n"
    unfolding n_def by linarith
  have dn: "decimal n = decimal (n div 10) @ [digit_char (n mod 10)]"
    using n10 by (rule decimal_snoc)
  have len: "\<not> length (decimal n) \<le> 1"
    using decimal_nonempty [of "n div 10"] by (simp add: dn)
  have "toFixed nts 1 (Fin x) = take (length (decimal n) - 1) (decimal n) @ ''.'' @ drop (length (decimal n) - 1) (decimal n)"
    using assms len by (simp add: Let_def n_def)
  also have "\<dots> = decimal (n div 10) @ ''.'' @ [digit_char (n mod 10)]"
    by (simp add: dn)
  finally show ?thesis by (simp add: n_def)
qed

text \<open>
  The distance that is the double nearest to \<open>5.5 / 5280\<close> miles, a little less than five
  and a half feet, is written as 6 feet: the product with 5280 is rounded to \<open>5.5\<close> before
  \<open>toFixed\<close> rounds it. A distance that is not finite takes the first branch when it is
  \<open>-Infinity\<close> and the last one otherwise.
\<close>

lemma formatDistance_rounded_product:
  "formatDistance nts (Fin (4803839602528529 / 2 ^ 62)) = ''6 ft''"
  using roundDouble_up
  by (simp add: formatDistance_def Let_def decimal.simps digit_char_def)

lemma formatDistance_not_finite:
  "formatDistance nts NegInf = ''-Infinity ft''"
  "formatDistance nts PosInf = ''Infinity mi''"
  "formatDistance nts NaN = ''NaN mi''"
  by (simp_all add: formatDistance_def)

text \<open>
  C6. \<open>formatDistance\<close> writes a distance below 1 mile as feet, \<open>toFixed(0)\<close> of the
  double product with 5280; a distance from 1 to below 10 miles as miles, \<open>toFixed(1)\<close>;
  and a distance from 10 miles on as miles, \<open>toFixed(0)\<close>. For magnitudes below \<open>10^21\<close>
  these are the digits of the rounded feet, the digits of the rounded tenths of a mile
  with a point before the last one, and the digits of the rounded miles. 0.5 gives
  \<open>2640 ft\<close>, 5.25 gives \<open>5.3 mi\<close> and 42 gives \<open>42 mi\<close>.
\<close>

theorem formatDistance_format:
  "(d < 1 \<longrightarrow> formatDistance nts (Fin d) = toFixed nts 0 (multiply (Fin d) (Fin 5280)) @ '' ft'')
   \<and> (1 \<le> d \<and> d < 10 \<longrightarrow> formatDistance nts (Fin d) = toFixed nts 1 (Fin d) @ '' mi'')
   \<and> (10 \<le> d \<longrightarrow> formatDistance nts (Fin d) = toFixed nts 0 (Fin d) @ '' mi'')
   \<and> (d < 1 \<and> multiply (Fin d) (Fin 5280) = Fin p \<and> \<bar>p\<bar> < 10 ^ 21 \<longrightarrow>
      formatDistance nts (Fin d) =
        (if p < 0 then ''-'' else '''') @ decimal (nat \<lfloor>\<bar>p\<bar> + 1 / 2\<rfloor>) @ '' ft'')
   \<and> (1 \<le> d \<and> d < 10 \<longrightarrow>
      formatDistance nts (Fin d) =
        decimal (nat \<lfloor>d * 10 + 1 / 2\<rfloor> div 10) @ ''.''
          @ [digit_char (nat \<lfloor>d * 10 + 1 / 2\<rfloor> mod 10)] @ '' mi'')
   \<and> (10 \<le> d \<and> d < 10 ^ 21 \<longrightarrow>
      formatDistance nts (Fin d) = decimal (nat \<lfloor>d + 1 / 2\<rfloor>) @ '' mi'')
   \<and> formatDistance nts (Fin 0.5) = ''2640 ft''
   \<and> formatDistance nts (Fin 5.25) = ''5.3 mi''
   \<and> formatDistance nts (Fin 42) = ''42 mi''"
proof -
  have feet: "formatDistance nts (Fin d) =
        (if p < 0 then ''-'' else '''') @ decimal (nat \<lfloor>\<bar>p\<bar> + 1 / 2\<rfloor>) @ '' ft''"
    if "d < 1" "multiply (Fin d) (Fin 5280) = Fin p" "\<bar>p\<bar> < 10 ^ 21"
  proof -
    have "formatDistance nts (Fin d) = toFixed nts 0 (Fin p) @ '' ft''"
      using that(1) that(2) by (simp add: formatDistance_def)
    then show ?thesis
      using toFixed_0 [OF that(3), of nts] by simp
  qed
  have tenths: "formatDistance nts (Fin d) =
        decimal (nat \<lfloor>d * 10 + 1 / 2\<rfloor> div 10) @ ''.''
          @ [digit_char (nat \<lfloor>d * 10 + 1 / 2\<rfloor> mod 10)] @ '' mi''"
    if "1 \<le> d" "d < 10"
  proof -
    have "d < 10 ^ 21" using that(2) by simp
    from toFixed_1 [OF that(1) this, of nts] show ?thesis
      using that by (simp add: formatDistance_def)
  qed
  have whole: "formatDistance nts (Fin d) = decimal (nat \<lfloor>d + 1 / 2\<rfloor>) @ '' mi''"
    if "10 \<le> d" "d < 10 ^ 21"
  proof -
    have "\<bar>d\<bar> < 10 ^ 21" using that by simp
    from toFixed_0 [OF this, of nts] show ?thesis
      using that by (simp add: formatDistance_def)
  qed
  have half: "formatDistance nts (Fin 0.5) = ''2640 ft''"
    using roundDouble_2640 by (simp add: formatDistance_def Let_def decimal.simps digit_char_def)
  have ex: "formatDistance nts (Fin 5.25) = ''5.3 mi''" "formatDistance nts (Fin 42) = ''42 mi''"
    by (simp_all add: formatDistance_def Let_def decimal.simps digit_char_def)
  have branches:
    "d < 1 \<longrightarrow> formatDistance nts (Fin d) = toFixed nts 0 (multiply (Fin d) (Fin 5280)) @ '' ft''"
    "1 \<le> d \<and> d < 10 \<longrightarrow> formatDistance nts (Fin d) = toFixed nts 1 (Fin d) @ '' mi''"
    "10 \<le> d \<longrightarrow> formatDistance nts (Fin d) = toFixed nts 0 (Fin d) @ '' mi''"
    by (simp_all add: formatDistance_def del: toFixed.simps multiply.simps)
  show ?thesis
    using branches feet tenths whole half ex by blast
qed

theorem formatDistance_format_witness:
  "(1 / 4 :: real) < 1 \<and> multiply (Fin (1 / 4)) (Fin 5280) = Fin 1320
   \<and> formatDistance example_numToString (Fin (1 / 4)) = ''1320 ft''
   \<and> (1::real) \<le> 319 / 32 \<and> formatDistance example_numToString (Fin (319 / 32)) = ''10.0 mi''
   \<and> (10::real) \<le> 10.5 \<and> formatDistance example_numToString (Fin 10.5) = ''11 mi''"
proof -
  have m: "multiply (Fin (1 / 4)) (Fin 5280) = Fin 1320"
    using roundDouble_1320 by simp
  have a: "(1 / 4 :: real) < 1 \<and> multiply (Fin (1 / 4)) (Fin 5280) = Fin 1320
      \<and> \<bar>1320 :: real\<bar> < 10 ^ 21"
    using m by simp
  have b: "(1::real) \<le> 319 / 32 \<and> (319 / 32 :: real) < 10" by simp
  have c: "(10::real) \<le> 10.5 \<and> (10.5::real) < 10 ^ 21" by simp
  have "formatDistance example_numToString (Fin (1 / 4)) =
      (if (1320 :: real) < 0 then ''-'' else '''')
        @ decimal (nat \<lfloor>\<bar>1320 :: real\<bar> + 1 / 2\<rfloor>) @ '' ft''"
    using a formatDistance_format [where d = "1 / 4" and p = 1320 and nts = example_numToString]
    by blast
  then have feet: "formatDistance example_numToString (Fin (1 / 4)) = ''1320 ft''"
    by (simp add: decimal.simps digit_char_def)
  have "formatDistance example_numToString (Fin (319 / 32)) =
      decimal (nat \<lfloor>(319 / 32 :: real) * 10 + 1 / 2\<rfloor> div 10) @ ''.''
        @ [digit_char (nat \<lfloor>(319 / 32 :: real) * 10 + 1 / 2\<rfloor> mod 10)] @ '' mi''"
    using b formatDistance_format [where d = "319 / 32" and nts = example_numToString] by blast
  then have tenths: "formatDistance example_numToString (Fin (319 / 32)) = ''10.0 mi''"
    by (simp add: decimal.simps digit_char_def)
  have "formatDistance example_numToString (Fin 10.5) =
      decimal (nat \<lfloor>(10.5::real) + 1 / 2\<rfloor>) @ '' mi''"
    using c formatDistance_format [where d = "10.5" and nts = example_numToString] by blast
  then have whole: "formatDistance example_numToString (Fin 10.5) = ''11 mi''"
    by (simp add: decimal.simps digit_char_def)
  show ?thesis
    using a b c feet tenths whole by blast
qed


section \<open>Properties of the SDK loader\<close>

lemma loader_inv_init: "loader_inv loader_init"
  by (simp add: loader_inv_def loader_init_def)

lemma loader_inv_load: "loader_inv st \<Longrightarrow> loader_inv (snd (loadGoogleMaps env st))"
  by (auto simp: loader_inv_def loadGoogleMaps_def Let_def split: option.splits)

lemma loader_inv_settle: "loader_inv st \<Longrightarrow> loader_inv (settle p outcome st)"
  by (auto simp: loader_inv_def settle_def)

lemma loader_inv_step: "loader_inv st \<Longrightarrow> loader_inv (snd (loader_step ev st))"
  by (cases ev) (simp_all add: loader_inv_load loader_inv_settle script_onload_def script_onerror_def)

lemma loader_inv_run: "loader_inv st \<Longrightarrow> loader_inv (snd (loader_run evs st))"
  by (induction evs arbitrary: st) (simp_all add: loader_inv_step)

lemma load_cached:
  "googleMapsPromise st = Some p \<Longrightarrow> loadGoogleMaps env st = (p, st)"
  by (simp add: loadGoogleMaps_def)

lemma step_keeps_cache:
  "googleMapsPromise st = Some p \<Longrightarrow> googleMapsPromise (snd (loader_step ev st)) = Some p"
  by (cases ev) (simp_all add: load_cached script_onload_def script_onerror_def settle_def)

lemma run_keeps_cache:
  "googleMapsPromise st = Some p \<Longrightarrow> googleMapsPromise (snd (loader_run evs st)) = Some p"
  by (induction evs arbitrary: st) (simp_all add: step_keeps_cache)

lemma step_returns_cached:
  "googleMapsPromise st = Some p \<Longrightarrow> list_all (\<lambda>q. q = p) (fst (loader_step ev st))"
  by (cases ev) (simp_all add: load_cached)

lemma run_returns_cached:
  "googleMapsPromise st = Some p \<Longrightarrow> list_all (\<lambda>q. q = p) (fst (loader_run evs st))"
  by (induction evs arbitrary: st) (simp_all add: step_returns_cached step_keeps_cache)

lemma step_returns_first:
  "googleMapsPromise st = None \<Longrightarrow> promises st = [] \<Longrightarrow> list_all (\<lambda>q. q = 0) (fst (loader_step ev st))"
  by (cases ev) (simp_all add: loadGoogleMaps_def Let_def)

lemma run_returns_zero:
  "loader_inv st \<Longrightarrow> list_all (\<lambda>q. q = 0) (fst (loader_run evs st))"
proof (induction evs arbitrary: st)
  case Nil
  then show ?case by simp
next
  case (Cons ev evs)
  have "list_all (\<lambda>q. q = 0) (fst (loader_step ev st))"
  proof (cases "googleMapsPromise st")
    case None
    with Cons.prems have "promises st = []"
      by (simp add: loader_inv_def)
    with None show ?thesis
      by (rule step_returns_first)
  next
    case (Some p)
    with Cons.prems have "googleMapsPromise st = Some 0"
      by (simp add: loader_inv_def)
    then show ?thesis
      by (rule step_returns_cached)
  qed
  moreover have "list_all (\<lambda>q. q = 0) (fst (loader_run evs (snd (loader_step ev st))))"
    using Cons.IH Cons.prems by (simp add: loader_inv_step)
  ultimately show ?case by simp
qed

lemma settle_settled:
  "q < length (promises st) \<Longrightarrow> promises st ! q \<noteq> Pending \<Longrightarrow>
   promises (settle p outcome st) ! q = promises st ! q"
  by (auto simp: settle_def nth_list_update)

lemma step_settled:
  assumes "googleMapsPromise st \<noteq> None" "q < length (promises st)" "promises st ! q \<noteq> Pending"
  shows "promises (snd (loader_step ev st)) ! q = promises st ! q"
  using assms
  by (cases ev) (auto simp: load_cached script_onload_def script_onerror_def settle_settled)

lemma step_length:
  "googleMapsPromise st \<noteq> None \<Longrightarrow> length (promises (snd (loader_step ev st))) = length (promises st)"
  by (cases ev) (auto simp: load_cached script_onload_def script_onerror_def settle_def)

lemma run_settled:
  assumes "googleMapsPromise st \<noteq> None" "q < length (promises st)" "promises st ! q \<noteq> Pending"
  shows "promises (snd (loader_run evs st)) ! q = promises st ! q"
  using assms
proof (induction evs arbitrary: st)
  case Nil
  then show ?case by simp
next
  case (Cons ev evs)
  let ?st = "snd (loader_step ev st)"
  have "googleMapsPromise ?st \<noteq> None"
    using Cons.prems(1) step_keeps_cache [of st _ ev] by auto
  moreover have "q < length (promises ?st)"
    using Cons.prems by (simp add: step_length)
  moreover have "promises ?st ! q = promises st ! q"
    using Cons.prems by (rule step_settled)
  ultimately show ?case
    using Cons.IH [of ?st] Cons.prems(3) by simp
qed

lemma loader_run_append:
  "loader_run (evs @ evs') st =
     (fst (loader_run evs st) @ fst (loader_run evs' (snd (loader_run evs st))),
      snd (loader_run evs' (snd (loader_run evs st))))"
  by (induction evs arbitrary: st) simp_all

lemma singleton_nth: "length xs = 1 \<Longrightarrow> xs = [xs ! 0]"
  by (cases xs) simp_all

lemma loader_inv_promises:
  "loader_inv st \<Longrightarrow> googleMapsPromise st \<noteq> None \<Longrightarrow> promises st = [promises st ! 0]"
  by (rule singleton_nth) (simp add: loader_inv_def split: if_splits)

lemma loader_inv_bounds:
  "loader_inv st \<Longrightarrow> length (scripts st) \<le> 1 \<and> length (promises st) \<le> 1"
  by (auto simp: loader_inv_def split: if_splits)

lemma first_call:
  "loadGoogleMaps env loader_init =
     (0, \<lparr>promises = [fst (executor env)], googleMapsPromise = Some 0,
          scripts = (if snd (executor env) then [0] else [])\<rparr>)"
  by (simp add: loadGoogleMaps_def loader_init_def Let_def)

lemma run_outcome_permanent:
  assumes "loader_inv st" "googleMapsPromise st \<noteq> None" "promises st ! 0 \<noteq> Pending"
  shows "promises (snd (loader_run evs st)) = [promises st ! 0]"
proof -
  have len: "0 < length (promises st)"
    using loader_inv_promises [OF assms(1,2)] by (cases "promises st") simp_all
  have same: "promises (snd (loader_run evs st)) ! 0 = promises st ! 0"
    using assms(2) len assms(3) by (rule run_settled)
  obtain p where "googleMapsPromise st = Some p"
    using assms(2) by auto
  then have "googleMapsPromise (snd (loader_run evs st)) \<noteq> None"
    using run_keeps_cache [of st p evs] by simp
  then have "promises (snd (loader_run evs st)) = [promises (snd (loader_run evs st)) ! 0]"
    using loader_inv_run [OF assms(1), of evs] by (rule loader_inv_promises [rotated])
  then show ?thesis
    using same by simp
qed

text \<open>
  C9. In a process, whatever calls and script events happen, at most one script element is
  appended and at most one promise is created, and every call returns that promise. The
  first call creates the promise, starts the load or settles the promise at once, and
  caches it; every later call returns the cached promise and changes nothing; a promise
  that was settled by the first call stays as it is, and a rejected promise stays
  rejected through all later calls and events: the load is not tried again.
\<close>

theorem loadGoogleMaps_once:
  "length (scripts (snd (loader_run evs loader_init))) \<le> 1
   \<and> length (promises (snd (loader_run evs loader_init))) \<le> 1
   \<and> list_all (\<lambda>p. p = 0) (fst (loader_run evs loader_init))
   \<and> loadGoogleMaps env loader_init =
       (0, \<lparr>promises = [fst (executor env)], googleMapsPromise = Some 0,
            scripts = (if snd (executor env) then [0] else [])\<rparr>)
   \<and> loadGoogleMaps env' (snd (loader_run (Call env # evs) loader_init))
       = (0, snd (loader_run (Call env # evs) loader_init))
   \<and> (fst (executor env) \<noteq> Pending \<longrightarrow>
        promises (snd (loader_run (Call env # evs) loader_init)) = [fst (executor env)])
   \<and> (promises (snd (loader_run evs loader_init)) = [Failed e] \<longrightarrow>
        promises (snd (loader_run (evs @ evs') loader_init)) = [Failed e])"
proof -
  let ?st1 = "snd (loadGoogleMaps env loader_init)"
  have inv: "loader_inv (snd (loader_run evs loader_init))"
    using loader_inv_init by (rule loader_inv_run)
  have inv1: "loader_inv ?st1"
    using loader_inv_init by (rule loader_inv_load)
  have c1: "googleMapsPromise ?st1 = Some 0" and p1: "promises ?st1 ! 0 = fst (executor env)"
    by (simp_all add: first_call)
  have run1: "snd (loader_run (Call env # evs) loader_init) = snd (loader_run evs ?st1)"
    by simp
  have cached: "googleMapsPromise (snd (loader_run (Call env # evs) loader_init)) = Some 0"
    unfolding run1 using c1 by (rule run_keeps_cache)
  have again: "loadGoogleMaps env' (snd (loader_run (Call env # evs) loader_init))
       = (0, snd (loader_run (Call env # evs) loader_init))"
    using cached by (rule load_cached)
  have settled: "promises (snd (loader_run (Call env # evs) loader_init)) = [fst (executor env)]"
    if "fst (executor env) \<noteq> Pending"
  proof -
    have "promises (snd (loader_run evs ?st1)) = [promises ?st1 ! 0]"
      using inv1 by (rule run_outcome_permanent) (simp_all add: c1 p1 that)
    then show ?thesis
      unfolding run1 by (simp add: p1)
  qed
  have failed: "promises (snd (loader_run (evs @ evs') loader_init)) = [Failed e]"
    if "promises (snd (loader_run evs loader_init)) = [Failed e]"
  proof -
    let ?st = "snd (loader_run evs loader_init)"
    have some: "googleMapsPromise ?st \<noteq> None"
      using inv that by (auto simp: loader_inv_def split: if_splits)
    have "promises (snd (loader_run evs' ?st)) = [promises ?st ! 0]"
      using inv some by (rule run_outcome_permanent) (simp add: that)
    then show ?thesis
      by (simp add: loader_run_append that)
  qed
  show ?thesis
    using loader_inv_bounds [OF inv] run_returns_zero [OF loader_inv_init, of evs]
      first_call [of env] again settled failed
    by blast
qed

theorem loadGoogleMaps_once_witness:
  "fst (executor browser_without_key) \<noteq> Pending
   \<and> promises (snd (loader_run
        [Call browser_without_key, Call browser_with_key, ScriptLoad 0 True, Call browser_with_key]
        loader_init))
       = [Failed (Error ''Google Maps API key not found'')]
   \<and> promises (snd (loader_run [Call browser_with_key, ScriptError 0] loader_init))
       = [Failed (Error ''Failed to load maps. Please refresh the page.'')]
   \<and> promises (snd (loader_run
        ([Call browser_with_key, ScriptError 0] @ [Call browser_with_key, ScriptLoad 0 True])
        loader_init))
       = [Failed (Error ''Failed to load maps. Please refresh the page.'')]"
proof -
  have a: "fst (executor browser_without_key) \<noteq> Pending"
    and v: "fst (executor browser_without_key) = Failed (Error ''Google Maps API key not found'')"
    by (simp_all add: executor_def browser_without_key_def)
  have b: "promises (snd (loader_run [Call browser_with_key, ScriptError 0] loader_init))
       = [Failed (Error ''Failed to load maps. Please refresh the page.'')]"
    by (simp add: loadGoogleMaps_def loader_init_def Let_def executor_def browser_with_key_def
        script_onerror_def settle_def MAPS_LOAD_FAILED_def)
  have s1: "promises (snd (loader_run
        (Call browser_without_key # [Call browser_with_key, ScriptLoad 0 True, Call browser_with_key])
        loader_init))
       = [fst (executor browser_without_key)]"
    using a
      loadGoogleMaps_once [where env = browser_without_key
        and evs = "[Call browser_with_key, ScriptLoad 0 True, Call browser_with_key]"]
    by blast
  have s2: "promises (snd (loader_run
        ([Call browser_with_key, ScriptError 0] @ [Call browser_with_key, ScriptLoad 0 True])
        loader_init))
       = [Failed (Error ''Failed to load maps. Please refresh the page.'')]"
    using b
      loadGoogleMaps_once [where evs = "[Call browser_with_key, ScriptError 0]"
        and e = "Error ''Failed to load maps. Please refresh the page.''"
        and evs' = "[Call browser_with_key, ScriptLoad 0 True]"]
    by blast
  show ?thesis
    using a s1 b s2 by (simp only: v) blast
qed

text \<open>
  A run: the load starts, a second call in an environment without a key gets the same
  promise, the script loads, and a third call gets the resolved promise.
\<close>

lemma loader_example:
  "loader_run [Call browser_with_key, Call browser_without_key, ScriptLoad 0 True, Call browser_with_key]
     loader_init
   = ([0, 0, 0], \<lparr>promises = [Resolved], googleMapsPromise = Some 0, scripts = [0]\<rparr>)"
  by (simp add: loadGoogleMaps_def loader_init_def Let_def executor_def browser_with_key_def
      browser_without_key_def script_onload_def settle_def)

end
